theory Spec2Isabelle
  imports Complex_Main
begin

section \<open>JavaScript values\<close>

text \<open>
  Values that reach the application as parsed JSON. A missing property (\<open>undefined\<close>) is
  \<open>None\<close> of \<open>json option\<close>. Numbers are the integers; strings are lists of code units
  in the range of \<open>char\<close>.
\<close>

datatype json =
    JNull
  | JBool bool
  | JNum int
  | JStr string
  | JArr "json list"
  | JObj "(string \<times> json) list"

datatype js_error = TypeError

text \<open>Truthiness, as \<open>!x\<close>, \<open>x && y\<close> and \<open>x || y\<close> test it.\<close>

fun truthy :: "json \<Rightarrow> bool" where
  "truthy JNull = False"
| "truthy (JBool b) = b"
| "truthy (JNum n) = (n \<noteq> 0)"
| "truthy (JStr s) = (s \<noteq> [])"
| "truthy (JArr xs) = True"
| "truthy (JObj kvs) = True"

fun truthy_opt :: "json option \<Rightarrow> bool" where
  "truthy_opt None = False"
| "truthy_opt (Some v) = truthy v"

text \<open>
  Property read \<open>x.k\<close> on a value that is not \<open>null\<close>: the stored value of an object,
  \<open>undefined\<close> on everything else. Reading a property of \<open>null\<close> throws; callers test
  for \<open>JNull\<close> before they use \<open>get\<close>.
\<close>

fun get :: "json \<Rightarrow> string \<Rightarrow> json option" where
  "get (JObj kvs) k = map_of kvs k"
| "get v k = None"

text \<open>\<open>a || b\<close> on possibly undefined values.\<close>

definition js_or :: "json option \<Rightarrow> json option \<Rightarrow> json option" where
  "js_or a b = (if truthy_opt a then a else b)"

subsection \<open>Strings\<close>

fun js_join :: "string \<Rightarrow> string list \<Rightarrow> string" where
  "js_join sep [] = []"
| "js_join sep [x] = x"
| "js_join sep (x # y # ys) = x @ sep @ js_join sep (y # ys)"

text \<open>White space and line terminators that \<open>String.prototype.trim\<close> strips, among the
  code units below 256.\<close>

definition is_space :: "char \<Rightarrow> bool" where
  "is_space c = (c \<in> set [CHR 0x09, CHR 0x0A, CHR 0x0B, CHR 0x0C, CHR 0x0D, CHR 0x20, CHR 0xA0])"

definition trim :: "string \<Rightarrow> string" where
  "trim s = rev (dropWhile is_space (rev (dropWhile is_space s)))"

definition digit_char :: "nat \<Rightarrow> char" where
  "digit_char d = char_of (48 + d)"

fun show_nat :: "nat \<Rightarrow> string" where
  "show_nat n = (if n < 10 then [digit_char n] else show_nat (n div 10) @ [digit_char (n mod 10)])"

definition show_int :: "int \<Rightarrow> string" where
  "show_int i = (if i < 0 then CHR ''-'' # show_nat (nat (- i)) else show_nat (nat i))"

text \<open>\<open>ToString\<close>, and the element conversion of \<open>Array.prototype.join\<close>, which prints
  \<open>null\<close> as the empty string.\<close>

fun to_str :: "json \<Rightarrow> string" where
  "to_str JNull = ''null''"
| "to_str (JBool b) = (if b then ''true'' else ''false'')"
| "to_str (JNum n) = show_int n"
| "to_str (JStr s) = s"
| "to_str (JArr xs) = js_join '','' (map (\<lambda>x. if x = JNull then [] else to_str x) xs)"
| "to_str (JObj kvs) = ''[object Object]''"

definition join_values :: "string \<Rightarrow> json list \<Rightarrow> string" where
  "join_values sep xs = js_join sep (map (\<lambda>x. if x = JNull then [] else to_str x) xs)"

text \<open>\<open>toLowerCase\<close> on the code units below 256: the capitals \<open>A\<close> to \<open>Z\<close> and the
  Latin-1 capitals 0xC0 to 0xDE (without the multiplication sign 0xD7) move up by 32;
  every other code unit stays.\<close>

definition is_capital :: "nat \<Rightarrow> bool" where
  "is_capital n = ((65 \<le> n \<and> n \<le> 90) \<or> (192 \<le> n \<and> n \<le> 214) \<or> (216 \<le> n \<and> n \<le> 222))"

definition lower_char :: "char \<Rightarrow> char" where
  "lower_char c = (if is_capital (of_char c) then char_of (of_char c + (32::nat)) else c)"

definition toLowerCase :: "string \<Rightarrow> string" where
  "toLowerCase s = map lower_char s"

section \<open>Rich-text unwrapping: \<open>extractTextFromJiraContent\<close>\<close>

definition placeholder :: string where
  "placeholder = ''No description available''"

text \<open>\<open>node.type === 'text' && node.text\<close>: the text that \<open>extractText\<close> pushes.\<close>

definition text_leaf :: "json \<Rightarrow> json option" where
  "text_leaf node =
     (if get node ''type'' = Some (JStr ''text'') then
        (case get node ''text'' of
           Some t \<Rightarrow> if truthy t then Some t else None
         | None \<Rightarrow> None)
      else None)"

text \<open>\<open>node.content && Array.isArray(node.content)\<close>: the children that are visited.\<close>

definition child_nodes :: "json \<Rightarrow> json list option" where
  "child_nodes node = (case get node ''content'' of Some (JArr cs) \<Rightarrow> Some cs | _ \<Rightarrow> None)"

lemma map_of_size:
  "map_of kvs k = Some v \<Longrightarrow> size v < Suc (size_list (size_prod (\<lambda>_. 0) size) kvs)"
  by (induction kvs) (auto split: if_splits)

lemma child_nodes_size:
  assumes "child_nodes node = Some cs"
  shows "size_list size cs < size node"
proof (cases node)
  case (JObj kvs)
  with assms obtain v where v: "map_of kvs ''content'' = Some v" and c: "v = JArr cs"
    by (auto simp: child_nodes_def split: option.splits json.splits)
  from map_of_size [OF v] c JObj show ?thesis by simp
qed (use assms in \<open>auto simp: child_nodes_def\<close>)

text \<open>
  The inner \<open>extractText\<close>, returning the values it pushes on \<open>textParts\<close>, in order.
  A \<open>null\<close> node makes \<open>node.type\<close> throw, which ends the whole traversal.
\<close>

function extractText :: "json \<Rightarrow> js_error + json list"
  and forEach_extractText :: "json list \<Rightarrow> js_error + json list" where
  "extractText node =
     (if node = JNull then Inl TypeError
      else case text_leaf node of
             Some t \<Rightarrow> Inr [t]
           | None \<Rightarrow> (case child_nodes node of
                        Some cs \<Rightarrow> forEach_extractText cs
                      | None \<Rightarrow> Inr []))"
| "forEach_extractText [] = Inr []"
| "forEach_extractText (c # cs) =
     (case extractText c of
        Inl e \<Rightarrow> Inl e
      | Inr ps \<Rightarrow> (case forEach_extractText cs of
                     Inl e \<Rightarrow> Inl e
                   | Inr qs \<Rightarrow> Inr (ps @ qs)))"
  by pat_completeness auto
termination
  by (relation "measure (\<lambda>x. case x of Inl n \<Rightarrow> size n | Inr ns \<Rightarrow> size_list size ns)")
     (auto dest: child_nodes_size)

declare extractText.simps [simp del]

definition or_placeholder :: "string \<Rightarrow> string" where
  "or_placeholder s = (if s = [] then placeholder else s)"

fun extractTextFromJiraContent :: "json option \<Rightarrow> js_error + string" where
  "extractTextFromJiraContent None = Inr placeholder"
| "extractTextFromJiraContent (Some (JStr s)) = Inr s"
| "extractTextFromJiraContent (Some content) =
     (if \<not> truthy content then Inr placeholder
      else case child_nodes content of
             Some cs \<Rightarrow> (case forEach_extractText cs of
                          Inl e \<Rightarrow> Inl e
                        | Inr textParts \<Rightarrow> Inr (or_placeholder (trim (join_values '' '' textParts))))
           | None \<Rightarrow> Inr placeholder)"

text \<open>
  The reading of the specification: a nested document is a tree of text leaves and
  containers; its plain text is the leaf texts in document order, joined by single spaces
  and trimmed.
\<close>

datatype adf = Text string | Container "adf list"

fun spec_leaf_texts :: "adf \<Rightarrow> string list" where
  "spec_leaf_texts (Text s) = [s]"
| "spec_leaf_texts (Container cs) = concat (map spec_leaf_texts cs)"

definition spec_plain_text :: "adf list \<Rightarrow> string" where
  "spec_plain_text cs = trim (js_join '' '' (concat (map spec_leaf_texts cs)))"

text \<open>The document as the issue tracker sends it.\<close>

fun adf_json :: "adf \<Rightarrow> json" where
  "adf_json (Text s) = JObj [(''type'', JStr ''text''), (''text'', JStr s)]"
| "adf_json (Container cs) = JObj [(''type'', JStr ''paragraph''), (''content'', JArr (map adf_json cs))]"

definition doc_json :: "adf list \<Rightarrow> json" where
  "doc_json cs = JObj [(''type'', JStr ''doc''), (''version'', JNum 1), (''content'', JArr (map adf_json cs))]"

section \<open>Work-item priority\<close>

text \<open>The priority expression of the work-item transform, on the value of the field
  \<open>Microsoft.VSTS.Common.Priority\<close>.\<close>

definition azure_priority :: "json option \<Rightarrow> string" where
  "azure_priority p =
     (if truthy_opt p then
        (if p = Some (JNum 1) then ''high''
         else if p = Some (JNum 2) then ''medium''
         else if p = Some (JNum 3) then ''low''
         else ''medium'')
      else ''medium'')"

definition workitem_priority :: "(string \<times> json) list \<Rightarrow> string" where
  "workitem_priority fields = azure_priority (map_of fields ''Microsoft.VSTS.Common.Priority'')"

section \<open>The relational store\<close>

text \<open>
  Rows are kept in insertion order with the identifier the store generated for them.
  A column holds the value that was written (\<open>JNull\<close> for SQL \<open>NULL\<close>). Every call to the
  store may fail: \<open>outcomes\<close> scripts the success of the calls to come, and a call beyond
  the script succeeds. A failed call returns an error and changes no row.
\<close>

type_synonym uuid = nat

record story_fields =
  us_project_id :: uuid
  us_title :: string
  us_description :: json
  us_acceptance_criteria :: string
  us_priority :: string
  us_status :: string

record tc_fields =
  tc_project_id :: uuid
  tc_user_story_id :: "uuid option"
  tc_title :: json
  tc_description :: json
  tc_steps :: json
  tc_expected_result :: json
  tc_priority :: string
  tc_status :: string

record database =
  user_stories :: "(uuid \<times> story_fields) list"
  test_cases :: "(uuid \<times> tc_fields) list"
  next_id :: uuid
  outcomes :: "bool list"

definition call_ok :: "database \<Rightarrow> bool \<times> database" where
  "call_ok db = (case outcomes db of [] \<Rightarrow> (True, db) | b # bs \<Rightarrow> (b, db\<lparr>outcomes := bs\<rparr>))"

text \<open>\<open>from('user_stories').select('id').eq('project_id', p).eq('title', t).single()\<close>:
  the row when exactly one row matches, no data otherwise.\<close>

definition select_story_single :: "uuid \<Rightarrow> string \<Rightarrow> database \<Rightarrow> uuid option \<times> database" where
  "select_story_single p t db =
     (let (ok, db1) = call_ok db;
          matches = filter (\<lambda>(i, f). us_project_id f = p \<and> us_title f = t) (user_stories db1)
      in (if ok then (case matches of [(i, f)] \<Rightarrow> Some i | _ \<Rightarrow> None) else None, db1))"

text \<open>\<open>from('user_stories').update(u).eq('id', i)\<close>; the result is \<open>!error\<close>.\<close>

definition update_story :: "uuid \<Rightarrow> (story_fields \<Rightarrow> story_fields) \<Rightarrow> database \<Rightarrow> bool \<times> database" where
  "update_story i u db =
     (let (ok, db1) = call_ok db
      in if ok then
           (True, db1\<lparr>user_stories := map (\<lambda>(j, f). if j = i then (j, u f) else (j, f)) (user_stories db1)\<rparr>)
         else (False, db1))"

definition insert_story :: "story_fields \<Rightarrow> database \<Rightarrow> bool \<times> database" where
  "insert_story f db =
     (let (ok, db1) = call_ok db
      in if ok then
           (True, db1\<lparr>user_stories := user_stories db1 @ [(next_id db1, f)], next_id := Suc (next_id db1)\<rparr>)
         else (False, db1))"

text \<open>\<open>from('user_stories').update({ status }).eq('id', i).eq('project_id', p)\<close>.\<close>

definition update_story_status :: "uuid \<Rightarrow> uuid \<Rightarrow> string \<Rightarrow> database \<Rightarrow> bool \<times> database" where
  "update_story_status i p st db =
     (let (ok, db1) = call_ok db
      in if ok then
           (True, db1\<lparr>user_stories :=
              map (\<lambda>(j, f). if j = i \<and> us_project_id f = p then (j, f\<lparr>us_status := st\<rparr>) else (j, f))
                (user_stories db1)\<rparr>)
         else (False, db1))"

definition delete_story :: "uuid \<Rightarrow> database \<Rightarrow> bool \<times> database" where
  "delete_story i db =
     (let (ok, db1) = call_ok db
      in if ok then (True, db1\<lparr>user_stories := filter (\<lambda>(j, f). j \<noteq> i) (user_stories db1)\<rparr>)
         else (False, db1))"

text \<open>\<open>from('test_cases').delete().eq('user_story_id', s)\<close>.\<close>

definition delete_test_cases_of_story :: "uuid \<Rightarrow> database \<Rightarrow> bool \<times> database" where
  "delete_test_cases_of_story s db =
     (let (ok, db1) = call_ok db
      in if ok then
           (True, db1\<lparr>test_cases := filter (\<lambda>(j, f). tc_user_story_id f \<noteq> Some s) (test_cases db1)\<rparr>)
         else (False, db1))"

text \<open>\<open>from('test_cases').delete().eq('user_story_id', s).eq('project_id', p)\<close>.\<close>

definition delete_test_cases_of_story_in :: "uuid \<Rightarrow> uuid \<Rightarrow> database \<Rightarrow> bool \<times> database" where
  "delete_test_cases_of_story_in s p db =
     (let (ok, db1) = call_ok db
      in if ok then
           (True, db1\<lparr>test_cases :=
              filter (\<lambda>(j, f). \<not> (tc_user_story_id f = Some s \<and> tc_project_id f = p)) (test_cases db1)\<rparr>)
         else (False, db1))"

text \<open>Bulk insert: the rows get consecutive fresh identifiers.\<close>

definition insert_test_cases :: "tc_fields list \<Rightarrow> database \<Rightarrow> bool \<times> database" where
  "insert_test_cases fs db =
     (let (ok, db1) = call_ok db
      in if ok then
           (True, db1\<lparr>test_cases := test_cases db1 @ zip [next_id db1 ..< next_id db1 + length fs] fs,
                       next_id := next_id db1 + length fs\<rparr>)
         else (False, db1))"

section \<open>Synchronisation: \<open>syncFromIntegrations\<close>\<close>

text \<open>A story as an integration function returns it.\<close>

record story_item =
  it_title :: string
  it_description :: "json option"
  it_acceptanceCriteria :: "string option"
  it_priority :: "string option"
  it_status :: "string option"

datatype provider = Jira | AzureDevOps

text \<open>A line written with \<open>console.error\<close>: by the integration function of a provider,
  or by the client's \<open>catch\<close> around that provider.\<close>

datatype log_entry = EdgeError provider | ClientError provider

text \<open>
  One run of an integration function: the request fails its input validation, the call
  to the tracker throws, the answer of the tracker cannot be read as the expected JSON,
  or the tracker answers with a status and, when that is a success, the stories the
  answer is transformed into. A thrown call is written once, by the function's \<open>catch\<close>.
  A status that is not a success is written once by the issue-tracker function, which
  answers at once, and twice by the work-item function, which writes the error, throws
  and writes again in its \<open>catch\<close>. An unreadable answer throws in the issue-tracker
  function (one line) and is written, thrown again and written again in the work-item
  function (two lines).
\<close>

datatype edge_run = InvalidRequest | TrackerThrows | TrackerUnreadable | TrackerAnswers nat "story_item list"

definition rejection_log :: "provider \<Rightarrow> log_entry list" where
  "rejection_log pr = (case pr of Jira \<Rightarrow> [EdgeError pr] | AzureDevOps \<Rightarrow> [EdgeError pr, EdgeError pr])"

definition http_ok :: "nat \<Rightarrow> bool" where
  "http_ok st = (200 \<le> st \<and> st \<le> 299)"

record provider_reply =
  rp_success :: bool
  rp_stories :: "story_item list option"

definition failure_reply :: provider_reply where
  "failure_reply = \<lparr>rp_success = False, rp_stories = None\<rparr>"

definition integration_function :: "provider \<Rightarrow> edge_run \<Rightarrow> log_entry list \<times> provider_reply" where
  "integration_function pr r =
     (case r of
        InvalidRequest \<Rightarrow> ([], failure_reply)
      | TrackerThrows \<Rightarrow> ([EdgeError pr], failure_reply)
      | TrackerUnreadable \<Rightarrow> (rejection_log pr, failure_reply)
      | TrackerAnswers st items \<Rightarrow>
          if http_ok st then ([], \<lparr>rp_success = True, rp_stories = Some items\<rparr>)
          else (rejection_log pr, failure_reply))"

text \<open>The client's \<open>fetch\<close> and \<open>response.json()\<close>: they throw, or the function ran.\<close>

datatype provider_call = FetchThrows | Reaches edge_run

definition or_default :: "string option \<Rightarrow> string \<Rightarrow> string" where
  "or_default v d = (case v of None \<Rightarrow> d | Some s \<Rightarrow> if s = [] then d else s)"

text \<open>\<open>s.replace(' ', '-')\<close> replaces the first space only.\<close>

fun replace_first_space :: "string \<Rightarrow> string" where
  "replace_first_space [] = []"
| "replace_first_space (c # cs) = (if c = CHR '' '' then CHR ''-'' # cs else c # replace_first_space cs)"

definition jira_priority :: "story_item \<Rightarrow> string" where
  "jira_priority story = or_default (map_option toLowerCase (it_priority story)) ''medium''"

definition jira_status :: "story_item \<Rightarrow> string" where
  "jira_status story =
     or_default (map_option (\<lambda>s. replace_first_space (toLowerCase s)) (it_status story)) ''draft''"

definition jira_update :: "string \<Rightarrow> story_item \<Rightarrow> story_fields \<Rightarrow> story_fields" where
  "jira_update d story f =
     f\<lparr>us_description := JStr d,
       us_acceptance_criteria := or_default (it_acceptanceCriteria story) [],
       us_priority := jira_priority story,
       us_status := jira_status story\<rparr>"

definition jira_insert :: "uuid \<Rightarrow> string \<Rightarrow> story_item \<Rightarrow> story_fields" where
  "jira_insert p d story =
     \<lparr>us_project_id = p, us_title = it_title story, us_description = JStr d,
      us_acceptance_criteria = or_default (it_acceptanceCriteria story) [],
      us_priority = jira_priority story, us_status = jira_status story\<rparr>"

text \<open>An undefined description is left out of the request: an update keeps the column,
  an insert leaves it \<open>NULL\<close>.\<close>

definition azure_update :: "story_item \<Rightarrow> story_fields \<Rightarrow> story_fields" where
  "azure_update story f =
     f\<lparr>us_description := (case it_description story of None \<Rightarrow> us_description f | Some v \<Rightarrow> v),
       us_acceptance_criteria := or_default (it_acceptanceCriteria story) [],
       us_priority := or_default (it_priority story) ''medium'',
       us_status := or_default (it_status story) ''draft''\<rparr>"

definition azure_insert :: "uuid \<Rightarrow> story_item \<Rightarrow> story_fields" where
  "azure_insert p story =
     \<lparr>us_project_id = p, us_title = it_title story,
      us_description = (case it_description story of None \<Rightarrow> JNull | Some v \<Rightarrow> v),
      us_acceptance_criteria = or_default (it_acceptanceCriteria story) [],
      us_priority = or_default (it_priority story) ''medium'',
      us_status = or_default (it_status story) ''draft''\<rparr>"

text \<open>The object literals of the two branches, which only the description can make throw.\<close>

type_synonym payloads = "js_error + ((story_fields \<Rightarrow> story_fields) \<times> story_fields)"

definition jira_payloads :: "uuid \<Rightarrow> story_item \<Rightarrow> payloads" where
  "jira_payloads p story =
     (case extractTextFromJiraContent (it_description story) of
        Inl e \<Rightarrow> Inl e
      | Inr d \<Rightarrow> Inr (jira_update d story, jira_insert p d story))"

definition azure_payloads :: "uuid \<Rightarrow> story_item \<Rightarrow> payloads" where
  "azure_payloads p story = Inr (azure_update story, azure_insert p story)"

text \<open>
  The body of the loop over the fetched stories, the same for both providers: look the
  title up, then update the row found or insert a new one, and count the write when it
  returned no error. The first component of the result tells that the body threw.
\<close>

definition sync_story :: "uuid \<Rightarrow> string \<Rightarrow> payloads \<Rightarrow> database \<times> nat \<Rightarrow> bool \<times> database \<times> nat" where
  "sync_story p title pl st =
     (let (db, syncedCount) = st;
          (existingStory, db1) = select_story_single p title db
      in case pl of
           Inl e \<Rightarrow> (True, db1, syncedCount)
         | Inr (upd, ins) \<Rightarrow>
             (let (ok, db2) = (case existingStory of
                                 Some i \<Rightarrow> update_story i upd db1
                               | None \<Rightarrow> insert_story ins db1)
              in (False, db2, if ok then Suc syncedCount else syncedCount)))"

fun stories_loop :: "(story_item \<Rightarrow> payloads) \<Rightarrow> uuid \<Rightarrow> story_item list \<Rightarrow> database \<times> nat \<Rightarrow> bool \<times> database \<times> nat" where
  "stories_loop mk p [] st = (False, st)"
| "stories_loop mk p (story # rest) st =
     (case sync_story p (it_title story) (mk story) st of
        (True, st1) \<Rightarrow> (True, st1)
      | (False, st1) \<Rightarrow> stories_loop mk p rest st1)"

text \<open>One provider block: the call, the test \<open>data.success && data.stories\<close>, the loop,
  and the \<open>catch\<close> that logs and goes on.\<close>

definition sync_provider :: "provider \<Rightarrow> (story_item \<Rightarrow> payloads) \<Rightarrow> uuid \<Rightarrow> provider_call \<Rightarrow> database \<times> nat \<Rightarrow> (database \<times> nat) \<times> log_entry list" where
  "sync_provider pr mk p call st =
     (case call of
        FetchThrows \<Rightarrow> (st, [ClientError pr])
      | Reaches r \<Rightarrow>
          (let (elog, data) = integration_function pr r
           in case (rp_success data, rp_stories data) of
                (True, Some stories) \<Rightarrow>
                  (case stories_loop mk p stories st of
                     (True, st1) \<Rightarrow> (st1, elog @ [ClientError pr])
                   | (False, st1) \<Rightarrow> (st1, elog))
              | _ \<Rightarrow> (st, elog)))"

record jira_config =
  jira_enabled :: bool
  jira_url :: string
  jira_email :: string
  jira_apiToken :: string
  jira_projectKey :: string

record azure_config =
  azure_enabled :: bool
  azure_organizationUrl :: string
  azure_projectName :: string
  azure_personalAccessToken :: string

definition jira_ready :: "jira_config option \<Rightarrow> bool" where
  "jira_ready c = (case c of None \<Rightarrow> False
     | Some c \<Rightarrow> jira_enabled c \<and> jira_url c \<noteq> [] \<and> jira_email c \<noteq> [] \<and> jira_apiToken c \<noteq> []
                 \<and> jira_projectKey c \<noteq> [])"

definition azure_ready :: "azure_config option \<Rightarrow> bool" where
  "azure_ready c = (case c of None \<Rightarrow> False
     | Some c \<Rightarrow> azure_enabled c \<and> azure_organizationUrl c \<noteq> [] \<and> azure_projectName c \<noteq> []
                 \<and> azure_personalAccessToken c \<noteq> [])"

record sync_env =
  signed_in :: bool
  current_project :: "uuid option"
  saved_jira :: "jira_config option"
  saved_azure :: "azure_config option"
  jira_call :: provider_call
  azure_call :: provider_call

datatype sync_toast = PleaseLogIn | SyncComplete nat | NoChanges | SyncFailed

record sync_result =
  sr_db :: database
  sr_synced :: nat
  sr_log :: "log_entry list"
  sr_toast :: sync_toast

definition syncFromIntegrations :: "sync_env \<Rightarrow> database \<Rightarrow> sync_result" where
  "syncFromIntegrations env db =
     (case (signed_in env, current_project env) of
        (True, Some p) \<Rightarrow>
          (let (st1, log1) = (if jira_ready (saved_jira env)
                              then sync_provider Jira (jira_payloads p) p (jira_call env) (db, 0)
                              else ((db, 0), []));
               (st2, log2) = (if azure_ready (saved_azure env)
                              then sync_provider AzureDevOps (azure_payloads p) p (azure_call env) st1
                              else (st1, []));
               syncedCount = snd st2
           in \<lparr>sr_db = fst st2, sr_synced = syncedCount, sr_log = log1 @ log2,
               sr_toast = (if syncedCount > 0 then SyncComplete syncedCount else NoChanges)\<rparr>)
      | _ \<Rightarrow> \<lparr>sr_db = db, sr_synced = 0, sr_log = [], sr_toast = PleaseLogIn\<rparr>)"

text \<open>The failures of a provider call: the client cannot reach the integration function
  (network error), the function cannot reach the tracker or cannot read its answer, or
  the tracker answers with a status that is not a success (an authentication rejection
  is 401 or 403). Each is written to a console, by the client or by the function.\<close>

fun failed_call :: "provider_call \<Rightarrow> bool" where
  "failed_call FetchThrows = True"
| "failed_call (Reaches TrackerThrows) = True"
| "failed_call (Reaches TrackerUnreadable) = True"
| "failed_call (Reaches (TrackerAnswers st items)) = (\<not> http_ok st)"
| "failed_call (Reaches InvalidRequest) = False"

text \<open>The lines a failed call leaves on the consoles.\<close>

definition failure_log :: "provider \<Rightarrow> provider_call \<Rightarrow> log_entry list" where
  "failure_log pr c =
     (case c of FetchThrows \<Rightarrow> [ClientError pr] | Reaches r \<Rightarrow> fst (integration_function pr r))"

section \<open>Test-case generation\<close>

subsection \<open>The function \<open>generate-test-cases\<close>\<close>

definition or_else :: "json option \<Rightarrow> json \<Rightarrow> json" where
  "or_else a b = (case a of Some v \<Rightarrow> if truthy v then v else b | None \<Rightarrow> b)"

text \<open>\<open>{...x}\<close>: the own enumerable properties of the value that is spread.\<close>

fun spread :: "json \<Rightarrow> (string \<times> json) list" where
  "spread (JObj kvs) = kvs"
| "spread (JArr xs) = zip (map show_nat [0 ..< length xs]) xs"
| "spread (JStr s) = zip (map show_nat [0 ..< length s]) (map (\<lambda>c. JStr [c]) s)"
| "spread v = []"

definition padStart3 :: "string \<Rightarrow> string" where
  "padStart3 s = replicate (3 - length s) CHR ''0'' @ s"

definition entry :: "string \<Rightarrow> json option \<Rightarrow> (string \<times> json) list" where
  "entry k v = (case v of None \<Rightarrow> [] | Some x \<Rightarrow> [(k, x)])"

text \<open>The object built for one parsed test case; \<open>testCase.id\<close> throws on \<open>null\<close>.
  \<open>now\<close> is the time stamp and \<open>dep\<close> the configured deployment.\<close>

definition enrich :: "json \<Rightarrow> json option \<Rightarrow> string \<Rightarrow> nat \<Rightarrow> json \<Rightarrow> js_error + json" where
  "enrich story dep now index testCase =
     (if testCase = JNull then Inl TypeError
      else Inr (JObj
        ([(''id'', or_else (get testCase ''id'') (JStr (''TC'' @ padStart3 (show_nat (index + 1)))))]
         @ entry ''storyId'' (get story ''id'')
         @ entry ''storyTitle'' (get story ''title'')
         @ [(''generatedAt'', JStr now),
            (''source'', JStr (''Azure OpenAI '' @ (case dep of None \<Rightarrow> ''undefined'' | Some d \<Rightarrow> to_str d)))]
         @ filter (\<lambda>(k, v). k \<notin> set [''id'', ''storyId'', ''storyTitle'', ''generatedAt'', ''source''])
             (spread testCase))))"

fun enrich_all :: "json \<Rightarrow> json option \<Rightarrow> string \<Rightarrow> nat \<Rightarrow> json list \<Rightarrow> js_error + json list" where
  "enrich_all story dep now index [] = Inr []"
| "enrich_all story dep now index (x # xs) =
     (case enrich story dep now index x of
        Inl e \<Rightarrow> Inl e
      | Inr y \<Rightarrow> (case enrich_all story dep now (Suc index) xs of
                    Inl e \<Rightarrow> Inl e
                  | Inr ys \<Rightarrow> Inr (y # ys)))"

type_synonym response = "nat \<times> json"

definition error_response :: "nat \<Rightarrow> string \<Rightarrow> response" where
  "error_response st msg = (st, JObj [(''error'', JStr msg)])"

definition parse_failure :: "string \<Rightarrow> response" where
  "parse_failure content =
     (500, JObj [(''error'', JStr ''Failed to parse generated test cases''),
                 (''details'', JStr ''Azure OpenAI response was not valid JSON''),
                 (''rawContent'', JStr content)])"

text \<open>
  The inner \<open>try\<close>: \<open>JSON.parse(content)\<close> (a parameter: \<open>None\<close> when it throws), then
  \<open>testCases.map\<close>, which throws on everything that is not an array. Both land in the
  same \<open>catch\<close>.
\<close>

definition parse_branch :: "(string \<Rightarrow> json option) \<Rightarrow> json \<Rightarrow> json option \<Rightarrow> string \<Rightarrow> string \<Rightarrow> response" where
  "parse_branch JSON_parse story dep now content =
     (case JSON_parse content of
        None \<Rightarrow> parse_failure content
      | Some testCases \<Rightarrow>
          (case testCases of
             JArr xs \<Rightarrow>
               (case enrich_all story dep now 0 xs of
                  Inl e \<Rightarrow> parse_failure content
                | Inr enrichedTestCases \<Rightarrow>
                    (200, JObj [(''success'', JBool True), (''testCases'', JArr enrichedTestCases),
                                (''story'', story)]))
           | _ \<Rightarrow> parse_failure content))"

text \<open>The outer \<open>catch\<close>, with the message of what was thrown.\<close>

definition outer_catch :: "string \<Rightarrow> response" where
  "outer_catch message =
     (500, JObj [(''error'', JStr ''Failed to generate test cases''), (''details'', JStr message)])"

text \<open>The call of the completion endpoint: it throws with a message (also when the answer
  has not the shape \<open>choices[0].message.content\<close>), answers with a status that is not a
  success, or returns the text.\<close>

datatype completion = CompletionThrows string | CompletionStatus nat | CompletionContent string

record generate_request =
  rq_authorization :: bool
  rq_user :: bool
  rq_story :: "json option"
  rq_azureConfig :: "json option"
  rq_completion :: completion

definition config_complete :: "json option \<Rightarrow> bool" where
  "config_complete c = (case c of None \<Rightarrow> False
     | Some c \<Rightarrow> truthy c \<and> truthy_opt (get c ''endpoint'') \<and> truthy_opt (get c ''apiKey'')
                 \<and> truthy_opt (get c ''deploymentId''))"

text \<open>\<open>x.length\<close>: the length of a string or an array, the own property \<open>length\<close> of an
  object, \<open>undefined\<close> otherwise.\<close>

fun js_length :: "json option \<Rightarrow> json option" where
  "js_length (Some (JStr s)) = Some (JNum (int (length s)))"
| "js_length (Some (JArr xs)) = Some (JNum (int (length xs)))"
| "js_length (Some (JObj kvs)) = map_of kvs ''length''"
| "js_length v = None"

text \<open>\<open>ToNumber\<close>, with \<open>None\<close> for \<open>NaN\<close>. The conversion of a string to a number is a
  parameter; an array is converted through its string, an object gives \<open>NaN\<close>.\<close>

fun to_number :: "(string \<Rightarrow> rat option) \<Rightarrow> json \<Rightarrow> rat option" where
  "to_number StringToNumber JNull = Some 0"
| "to_number StringToNumber (JBool b) = Some (if b then 1 else 0)"
| "to_number StringToNumber (JNum n) = Some (of_int n)"
| "to_number StringToNumber (JStr s) = StringToNumber s"
| "to_number StringToNumber (JArr xs) = StringToNumber (to_str (JArr xs))"
| "to_number StringToNumber (JObj kvs) = None"

text \<open>\<open>x.length > n\<close>, which is false when the length is \<open>undefined\<close> or \<open>NaN\<close>.\<close>

definition longer_than :: "(string \<Rightarrow> rat option) \<Rightarrow> json option \<Rightarrow> int \<Rightarrow> bool" where
  "longer_than StringToNumber v n =
     (case js_length v of
        Some l \<Rightarrow> (case to_number StringToNumber l of Some r \<Rightarrow> of_int n < r | None \<Rightarrow> False)
      | None \<Rightarrow> False)"

text \<open>The description is cut to 5000 code units; \<open>substring\<close> exists on strings only.\<close>

definition truncate_description :: "(string \<Rightarrow> rat option) \<Rightarrow> json \<Rightarrow> js_error + json" where
  "truncate_description StringToNumber story =
     (if truthy_opt (get story ''description'')
         \<and> longer_than StringToNumber (get story ''description'') 5000 then
        (case (story, get story ''description'') of
           (JObj kvs, Some (JStr d)) \<Rightarrow>
             Inr (JObj ((''description'', JStr (take 5000 d @ ''... [truncated]'')) # kvs))
         | _ \<Rightarrow> Inl TypeError)
      else Inr story)"

definition generate_test_cases_function ::
  "(string \<Rightarrow> json option) \<Rightarrow> (string \<Rightarrow> rat option) \<Rightarrow> string \<Rightarrow> generate_request \<Rightarrow> response" where
  "generate_test_cases_function JSON_parse StringToNumber now req =
     (if \<not> rq_authorization req then error_response 401 ''Authorization header missing''
      else if \<not> rq_user req then error_response 401 ''Unauthorized''
      else case rq_story req of
        None \<Rightarrow> error_response 400 ''Story data with title is required''
      | Some story \<Rightarrow>
          if \<not> (truthy story \<and> truthy_opt (get story ''title''))
          then error_response 400 ''Story data with title is required''
          else if longer_than StringToNumber (get story ''title'') 255
          then error_response 400 ''Story title exceeds maximum length of 255 characters''
          else case truncate_description StringToNumber story of
            Inl e \<Rightarrow> outer_catch ''story.description.substring is not a function''
          | Inr story1 \<Rightarrow>
              if \<not> config_complete (rq_azureConfig req)
              then error_response 400 ''Azure OpenAI configuration is required (endpoint, apiKey, deploymentId)''
              else case rq_completion req of
                CompletionThrows message \<Rightarrow> outer_catch message
              | CompletionStatus st \<Rightarrow> error_response st (''Azure OpenAI API error: '' @ show_nat st)
              | CompletionContent content \<Rightarrow>
                  parse_branch JSON_parse story1
                    (case rq_azureConfig req of None \<Rightarrow> None | Some c \<Rightarrow> get c ''deploymentId'')
                    now content)"

subsection \<open>The client: \<open>generateTestCases\<close>\<close>

definition newline :: string where
  "newline = [CHR 0x0A]"

definition steps_text :: "json \<Rightarrow> json" where
  "steps_text testCase =
     (case get testCase ''steps'' of
        Some v \<Rightarrow> if truthy v then (case v of JArr xs \<Rightarrow> JStr (join_values newline xs) | _ \<Rightarrow> v)
                  else JStr []
      | None \<Rightarrow> JStr [])"

text \<open>One element of \<open>testCasesToInsert\<close>. Reading a property of \<open>null\<close> throws, and so
  does \<open>toLowerCase\<close> on a priority that is not a string.\<close>

definition to_insert :: "uuid \<Rightarrow> uuid \<Rightarrow> json \<Rightarrow> js_error + tc_fields" where
  "to_insert currentProject storyId testCase =
     (if testCase = JNull then Inl TypeError
      else case or_else (get testCase ''priority'') (JStr ''medium'') of
        JStr pr \<Rightarrow>
          Inr \<lparr>tc_project_id = currentProject,
               tc_user_story_id = Some storyId,
               tc_title = or_else (js_or (get testCase ''title'') (get testCase ''name'')) (JStr ''Test Case''),
               tc_description = or_else (get testCase ''description'') (JStr []),
               tc_steps = steps_text testCase,
               tc_expected_result =
                 or_else (js_or (get testCase ''expectedResult'') (get testCase ''expected'')) (JStr []),
               tc_priority = toLowerCase pr,
               tc_status = ''draft''\<rparr>
      | _ \<Rightarrow> Inl TypeError)"

fun testCasesToInsert :: "uuid \<Rightarrow> uuid \<Rightarrow> json list \<Rightarrow> js_error + tc_fields list" where
  "testCasesToInsert currentProject storyId [] = Inr []"
| "testCasesToInsert currentProject storyId (x # xs) =
     (case to_insert currentProject storyId x of
        Inl e \<Rightarrow> Inl e
      | Inr r \<Rightarrow> (case testCasesToInsert currentProject storyId xs of
                    Inl e \<Rightarrow> Inl e
                  | Inr rs \<Rightarrow> Inr (r # rs)))"

text \<open>\<open>fetch\<close> and \<open>response.json()\<close> on the client (with the reading of an attached
  image before them): something throws, or the body is parsed.\<close>

datatype fetch_result = ResponseThrows | ResponseBody json

record generate_env =
  ge_story_known :: bool
  ge_access_token :: bool
  ge_openai_ready :: bool
  ge_current_project :: "uuid option"
  ge_response :: fetch_result

datatype generate_toast = AuthenticationError | NotConfigured | GeneratedAndSaved nat | GenerationFailed

definition generateTestCases :: "generate_env \<Rightarrow> uuid \<Rightarrow> database \<Rightarrow> database \<times> generate_toast option" where
  "generateTestCases env storyId db =
     (if \<not> ge_story_known env then (db, None)
      else if \<not> ge_access_token env then (db, Some AuthenticationError)
      else if \<not> ge_openai_ready env then (db, Some NotConfigured)
      else case ge_response env of
        ResponseThrows \<Rightarrow> (db, Some GenerationFailed)
      | ResponseBody data \<Rightarrow>
          if data = JNull then (db, Some GenerationFailed)
          else if truthy_opt (get data ''success'') \<and> truthy_opt (get data ''testCases'') then
            (case ge_current_project env of
               None \<Rightarrow> (db, Some GenerationFailed)
             | Some currentProject \<Rightarrow>
                 (let (deleted, db1) = delete_test_cases_of_story_in storyId currentProject db
                  in case get data ''testCases'' of
                       Some (JArr testCases) \<Rightarrow>
                         (case testCasesToInsert currentProject storyId testCases of
                            Inl e \<Rightarrow> (db1, Some GenerationFailed)
                          | Inr rows \<Rightarrow>
                              (let (inserted, db2) = insert_test_cases rows db1
                               in if \<not> inserted then (db2, Some GenerationFailed)
                                  else (let (updated, db3) =
                                              update_story_status storyId currentProject ''completed'' db2
                                        in (db3, Some (GeneratedAndSaved (length testCases))))))
                     | _ \<Rightarrow> (db1, Some GenerationFailed)))
          else (db, None))"

section \<open>Deleting a user story: \<open>deleteUserStory\<close>\<close>

datatype delete_toast = UserStoryDeleted | DeleteFailed

definition deleteUserStory :: "uuid \<Rightarrow> database \<Rightarrow> database \<times> delete_toast" where
  "deleteUserStory storyId db =
     (let (testCasesDeleted, db1) = delete_test_cases_of_story storyId db
      in if \<not> testCasesDeleted then (db1, DeleteFailed)
         else (let (storyDeleted, db2) = delete_story storyId db1
               in if \<not> storyDeleted then (db2, DeleteFailed)
                  else (db2, UserStoryDeleted)))"

section \<open>The test report: \<open>generate-test-report\<close>\<close>

subsection \<open>Number arithmetic\<close>

text \<open>
  The pass rate is computed with JavaScript numbers. A finite double is a rational; the
  result of a division or a multiplication is the exact result rounded to 53 significant
  bits, to the nearest and on a tie to the even significand. \<open>to_double\<close> is that rounding
  on the non-negative rationals of the normal range, which holds every value the report
  computes.
\<close>

text \<open>The number of binary digits of a positive integer.\<close>

function bitlen :: "int \<Rightarrow> nat" where
  "bitlen a = (if a \<le> 0 then 0 else Suc (bitlen (a div 2)))"
  by pat_completeness auto
termination
  by (relation "measure nat") auto

declare bitlen.simps [simp del]

definition pow2 :: "int \<Rightarrow> rat" where
  "pow2 k = (if 0 \<le> k then 2 ^ nat k else 1 / 2 ^ nat (- k))"

text \<open>The exponent \<open>e\<close> with \<open>2 ^ e \<le> x < 2 ^ (e + 1)\<close>, for a positive \<open>x\<close>.\<close>

definition binade :: "rat \<Rightarrow> int" where
  "binade x =
     (let (a, b) = quotient_of x;
          k = int (bitlen a) - int (bitlen b)
      in if pow2 k \<le> x then k else k - 1)"

definition round_even :: "rat \<Rightarrow> int" where
  "round_even z =
     (let f = \<lfloor>z\<rfloor>; d = z - of_int f
      in if d < 1 / 2 then f else if 1 / 2 < d then f + 1 else if even f then f else f + 1)"

definition to_double :: "rat \<Rightarrow> rat" where
  "to_double x =
     (if x \<le> 0 then 0
      else (let u = pow2 (binade x - 52) in of_int (round_even (x / u)) * u))"

text \<open>\<open>x.toFixed(1)\<close>, read in tenths: the integer \<open>n\<close> with \<open>n / 10\<close> nearest to \<open>x\<close>, the larger
  one on a tie.\<close>

definition toFixed1 :: "rat \<Rightarrow> int" where
  "toFixed1 x = \<lfloor>x * 10 + 1 / 2\<rfloor>"

text \<open>
  \<open>totalTests > 0 ? ((passedTests / totalTests) * 100).toFixed(1) : 0\<close>, then \<open>parseFloat\<close>
  of it: the decimal with one fractional digit that the response carries.
\<close>

definition passRate :: "nat \<Rightarrow> nat \<Rightarrow> rat" where
  "passRate passedTests totalTests =
     (if totalTests > 0
      then of_int (toFixed1 (to_double (to_double (of_nat passedTests / of_nat totalTests) * 100))) / 10
      else 0)"

subsection \<open>The function\<close>

record statistics =
  totalTests :: nat
  passedTests :: nat
  failedTests :: nat
  blockedTests :: nat
  pendingTests :: nat
  statistics_passRate :: rat

text \<open>\<open>testCases.filter(tc => tc.status === s).length\<close>, on test cases none of which is
  \<open>null\<close>.\<close>

definition count_status :: "string \<Rightarrow> json list \<Rightarrow> nat" where
  "count_status s testCases = length (filter (\<lambda>tc. get tc ''status'' = Some (JStr s)) testCases)"

text \<open>What follows the statistics (the prompt, the call of the completion endpoint, the
  usage log): it throws with a message, or yields the narrative.\<close>

datatype narrative = NarrativeThrows string | Narrative json

record report_request =
  rr_authorization :: bool
  rr_user :: bool
  rr_openAIConfig :: "json option"
  rr_testCases :: "json option"
  rr_projectName :: "json option"
  rr_reportType :: "json option"
  rr_narrative :: narrative

datatype report_response = ReportError nat string | Report json statistics

definition has_api_key :: "json option \<Rightarrow> bool" where
  "has_api_key c = (case c of None \<Rightarrow> False | Some c \<Rightarrow> truthy c \<and> truthy_opt (get c ''apiKey''))"

definition valid_project_name :: "json option \<Rightarrow> bool" where
  "valid_project_name n = (case n of Some (JStr s) \<Rightarrow> s \<noteq> [] \<and> length s \<le> 255 | _ \<Rightarrow> False)"

definition valid_report_type :: "json option \<Rightarrow> bool" where
  "valid_report_type r =
     (if truthy_opt r
      then r \<in> set [Some (JStr ''executive''), Some (JStr ''detailed''), Some (JStr ''summary'')]
      else True)"

definition generate_test_report :: "report_request \<Rightarrow> report_response" where
  "generate_test_report req =
     (if \<not> rr_authorization req
      then ReportError 500 ''Cannot read properties of null (reading 'replace')''
      else if \<not> rr_user req then ReportError 401 ''Unauthorized''
      else if \<not> has_api_key (rr_openAIConfig req) then ReportError 400 ''OpenAI configuration is required''
      else case rr_testCases req of
        Some (JArr testCases) \<Rightarrow>
          if testCases = [] then ReportError 400 ''Test cases array is required''
          else if \<not> valid_project_name (rr_projectName req)
          then ReportError 400 ''Project name is required and must be less than 255 characters''
          else if \<not> valid_report_type (rr_reportType req)
          then ReportError 400 ''Report type must be one of: executive, detailed, summary''
          else if length testCases > 200 then ReportError 400 ''Maximum 200 test cases allowed per request''
          else if JNull \<in> set testCases
          then ReportError 500 ''Cannot read properties of null (reading 'status')''
          else (case rr_narrative req of
                  NarrativeThrows message \<Rightarrow> ReportError 500 message
                | Narrative testReport \<Rightarrow>
                    Report testReport
                      \<lparr>totalTests = length testCases,
                       passedTests = count_status ''passed'' testCases,
                       failedTests = count_status ''failed'' testCases,
                       blockedTests = count_status ''blocked'' testCases,
                       pendingTests = count_status ''pending'' testCases,
                       statistics_passRate = passRate (count_status ''passed'' testCases) (length testCases)\<rparr>)
      | _ \<Rightarrow> ReportError 400 ''Test cases array is required'')"

section \<open>Example data\<close>

definition story_row :: "uuid \<Rightarrow> string \<Rightarrow> story_fields" where
  "story_row p t =
     \<lparr>us_project_id = p, us_title = t, us_description = JNull, us_acceptance_criteria = [],
      us_priority = ''medium'', us_status = ''draft''\<rparr>"

definition tc_row :: "uuid \<Rightarrow> uuid \<Rightarrow> string \<Rightarrow> tc_fields" where
  "tc_row p s t =
     \<lparr>tc_project_id = p, tc_user_story_id = Some s, tc_title = JStr t, tc_description = JStr [],
      tc_steps = JStr [], tc_expected_result = JStr [], tc_priority = ''medium'',
      tc_status = ''not-run''\<rparr>"

definition checkout_db :: database where
  "checkout_db =
     \<lparr>user_stories = [(1, story_row 7 ''Guest Checkout''), (2, story_row 7 ''Login'')],
      test_cases = [(10, tc_row 7 1 ''Pay as guest''), (11, tc_row 7 2 ''Sign in'')],
      next_id = 20, outcomes = []\<rparr>"

definition stub_test_cases :: "json list" where
  "stub_test_cases =
     [JObj [(''title'', JStr ''Pay as guest''), (''steps'', JArr [JStr ''Open the cart'', JStr ''Pay'']),
            (''priority'', JStr ''High'')],
      JObj [(''name'', JStr ''Reject an empty cart'')]]"

definition stub_parse :: "string \<Rightarrow> json option" where
  "stub_parse content = (if content = ''STUB'' then Some (JArr stub_test_cases) else None)"

definition stub_number :: "string \<Rightarrow> rat option" where
  "stub_number s = None"

definition stub_request :: "string \<Rightarrow> generate_request" where
  "stub_request content =
     \<lparr>rq_authorization = True, rq_user = True,
      rq_story = Some (JObj [(''id'', JNum 1), (''project_id'', JNum 7), (''title'', JStr ''Guest Checkout''),
                             (''description'', JStr ''As a guest I want to check out without registering'')]),
      rq_azureConfig = Some (JObj [(''endpoint'', JStr ''https://example.openai.azure.com''),
                                   (''apiKey'', JStr ''key''), (''deploymentId'', JStr ''gpt-4o'')]),
      rq_completion = CompletionContent content\<rparr>"

definition stub_env :: "string \<Rightarrow> generate_env" where
  "stub_env content =
     \<lparr>ge_story_known = True, ge_access_token = True, ge_openai_ready = True,
      ge_current_project = Some 7,
      ge_response = ResponseBody (snd (generate_test_cases_function stub_parse stub_number ''2025-01-01T00:00:00.000Z''
                                        (stub_request content)))\<rparr>"


definition regenerated_db :: database where
  "regenerated_db =
     \<lparr>user_stories = [(1, (story_row 7 ''Guest Checkout'')\<lparr>us_status := ''completed''\<rparr>),
                      (2, story_row 7 ''Login'')],
      test_cases =
        [(11, tc_row 7 2 ''Sign in''),
         (20, (tc_row 7 1 ''Pay as guest'')\<lparr>tc_steps := JStr (''Open the cart'' @ newline @ ''Pay''),
               tc_priority := ''high'', tc_status := ''draft''\<rparr>),
         (21, (tc_row 7 1 ''Reject an empty cart'')\<lparr>tc_status := ''draft''\<rparr>)],
      next_id = 22, outcomes = []\<rparr>"

definition login_item :: story_item where
  "login_item =
     \<lparr>it_title = ''login'', it_description = Some (JStr ''As a user I sign in''),
      it_acceptanceCriteria = None, it_priority = Some ''High'', it_status = Some ''In Progress''\<rparr>"

definition duplicates_db :: database where
  "duplicates_db =
     \<lparr>user_stories = [(1, story_row 7 ''login''), (2, story_row 7 ''login'')],
      test_cases = [], next_id = 3, outcomes = []\<rparr>"

definition ready_jira :: jira_config where
  "ready_jira =
     \<lparr>jira_enabled = True, jira_url = ''https://example.atlassian.net'', jira_email = ''qa@example.com'',
      jira_apiToken = ''token'', jira_projectKey = ''SHOP''\<rparr>"

definition ready_azure :: azure_config where
  "ready_azure =
     \<lparr>azure_enabled = True, azure_organizationUrl = ''https://dev.azure.com/example'',
      azure_projectName = ''Shop'', azure_personalAccessToken = ''pat''\<rparr>"

definition feed_env :: "provider_call \<Rightarrow> provider_call \<Rightarrow> sync_env" where
  "feed_env jc ac =
     \<lparr>signed_in = True, current_project = Some 7, saved_jira = Some ready_jira,
      saved_azure = Some ready_azure, jira_call = jc, azure_call = ac\<rparr>"

definition rejected_jira_env :: sync_env where
  "rejected_jira_env = feed_env (Reaches (TrackerAnswers 401 [])) (Reaches (TrackerAnswers 200 [login_item]))"

definition unreachable_azure_env :: sync_env where
  "unreachable_azure_env = feed_env (Reaches (TrackerAnswers 200 [login_item])) FetchThrows"

definition rejected_azure_env :: sync_env where
  "rejected_azure_env = feed_env (Reaches (TrackerAnswers 200 [login_item])) (Reaches (TrackerAnswers 401 []))"

definition report_case :: "string \<Rightarrow> string \<Rightarrow> json" where
  "report_case t st = JObj [(''title'', JStr t), (''status'', JStr st), (''priority'', JStr ''medium'')]"

definition report_request_of :: "json list \<Rightarrow> report_request" where
  "report_request_of testCases =
     \<lparr>rr_authorization = True, rr_user = True,
      rr_openAIConfig = Some (JObj [(''apiKey'', JStr ''key'')]),
      rr_testCases = Some (JArr testCases),
      rr_projectName = Some (JStr ''Checkout''),
      rr_reportType = Some (JStr ''summary''),
      rr_narrative = Narrative (JStr ''Executive Summary'')\<rparr>"

section \<open>Notions for the proofs about synchronisation\<close>

text \<open>The row that \<open>single()\<close> returns, the number of stories of a project with a title,
  updates that leave project and title alone, and the stories a provider call delivers
  to the loop.\<close>

definition single_id :: "(uuid \<times> story_fields) list \<Rightarrow> uuid option" where
  "single_id ms = (case ms of [(i, f)] \<Rightarrow> Some i | _ \<Rightarrow> None)"

definition title_count :: "uuid \<Rightarrow> string \<Rightarrow> (uuid \<times> story_fields) list \<Rightarrow> nat" where
  "title_count p t rows = length (filter (\<lambda>(i, f). us_project_id f = p \<and> us_title f = t) rows)"

definition keeps_key :: "(story_fields \<Rightarrow> story_fields) \<Rightarrow> bool" where
  "keeps_key upd = (\<forall>f. us_project_id (upd f) = us_project_id f \<and> us_title (upd f) = us_title f)"

definition wf_payloads :: "uuid \<Rightarrow> string \<Rightarrow> payloads \<Rightarrow> bool" where
  "wf_payloads p t pl =
     (case pl of Inl e \<Rightarrow> True
      | Inr (upd, ins) \<Rightarrow> keeps_key upd \<and> us_project_id ins = p \<and> us_title ins = t)"

definition feed_items :: "provider_call \<Rightarrow> story_item list" where
  "feed_items call =
     (case call of Reaches (TrackerAnswers st items) \<Rightarrow> if http_ok st then items else [] | _ \<Rightarrow> [])"

section \<open>Facts about the store\<close>

lemma call_ok_nil [simp]: "outcomes db = [] \<Longrightarrow> call_ok db = (True, db)"
  by (simp add: call_ok_def)

lemma call_ok_rows [simp]:
  "user_stories (snd (call_ok db)) = user_stories db"
  "test_cases (snd (call_ok db)) = test_cases db"
  "next_id (snd (call_ok db)) = next_id db"
  by (simp_all add: call_ok_def split: list.splits)

lemma delete_test_cases_of_story_eq:
  "delete_test_cases_of_story s db =
     (if fst (call_ok db)
      then (True, (snd (call_ok db))\<lparr>test_cases := filter (\<lambda>(j, f). tc_user_story_id f \<noteq> Some s) (test_cases db)\<rparr>)
      else (False, snd (call_ok db)))"
  by (cases "call_ok db") (use call_ok_rows(2) [of db] in \<open>simp add: delete_test_cases_of_story_def\<close>)

lemma delete_story_eq:
  "delete_story s db =
     (if fst (call_ok db)
      then (True, (snd (call_ok db))\<lparr>user_stories := filter (\<lambda>(j, f). j \<noteq> s) (user_stories db)\<rparr>)
      else (False, snd (call_ok db)))"
  by (cases "call_ok db") (use call_ok_rows(1) [of db] in \<open>simp add: delete_story_def\<close>)

section \<open>Rich-text unwrapping: properties\<close>

lemma extractText_text:
  "extractText (JObj [(''type'', JStr ''text''), (''text'', JStr s)]) = Inr (if s = [] then [] else [JStr s])"
  by (simp add: extractText.simps [of "JObj [(''type'', JStr ''text''), (''text'', JStr s)]"] text_leaf_def child_nodes_def)

lemma extractText_container:
  "extractText (JObj [(''type'', JStr ''paragraph''), (''content'', JArr cs)]) = forEach_extractText cs"
  by (simp add: extractText.simps [of "JObj [(''type'', JStr ''paragraph''), (''content'', JArr cs)]"] text_leaf_def child_nodes_def)

lemma forEach_map_adf:
  assumes "\<And>c. c \<in> set cs \<Longrightarrow> extractText (adf_json c) = Inr (map JStr (filter (\<lambda>s. s \<noteq> []) (spec_leaf_texts c)))"
  shows "forEach_extractText (map adf_json cs) = Inr (map JStr (filter (\<lambda>s. s \<noteq> []) (concat (map spec_leaf_texts cs))))"
  using assms by (induction cs) simp_all

lemma extractText_adf:
  "extractText (adf_json a) = Inr (map JStr (filter (\<lambda>s. s \<noteq> []) (spec_leaf_texts a)))"
proof (induction a)
  case (Text s)
  show ?case by (simp add: extractText_text)
next
  case (Container cs)
  have "forEach_extractText (map adf_json cs) = Inr (map JStr (filter (\<lambda>s. s \<noteq> []) (concat (map spec_leaf_texts cs))))"
    by (rule forEach_map_adf) (rule Container.IH)
  then show ?case by (simp add: extractText_container)
qed

lemma join_values_strs:
  "\<forall>s \<in> set xs. s \<noteq> [] \<Longrightarrow> join_values sep (map JStr xs) = js_join sep xs"
  by (simp add: join_values_def comp_def)

lemma extract_doc:
  "extractTextFromJiraContent (Some (doc_json cs)) =
     Inr (or_placeholder (trim (js_join '' '' (filter (\<lambda>s. s \<noteq> []) (concat (map spec_leaf_texts cs))))))"
proof -
  have c: "child_nodes (doc_json cs) = Some (map adf_json cs)"
    by (simp add: child_nodes_def doc_json_def)
  have f: "forEach_extractText (map adf_json cs) = Inr (map JStr (filter (\<lambda>s. s \<noteq> []) (concat (map spec_leaf_texts cs))))"
    by (rule forEach_map_adf) (rule extractText_adf)
  show ?thesis
    using c f by (simp add: doc_json_def join_values_strs)
qed




section \<open>Work-item priority: properties\<close>

text \<open>
  C7. For every work item, the numeric priority 1 gives the label \<open>high\<close>, 2 gives
  \<open>medium\<close>, 3 gives \<open>low\<close>, and every other value of the field, a missing field
  included, gives \<open>medium\<close>.
\<close>

theorem work_item_priority_label:
  assumes "map_of flds ''Microsoft.VSTS.Common.Priority'' = v"
  shows "(v = Some (JNum 1) \<longrightarrow> workitem_priority flds = ''high'')
       \<and> (v = Some (JNum 2) \<longrightarrow> workitem_priority flds = ''medium'')
       \<and> (v = Some (JNum 3) \<longrightarrow> workitem_priority flds = ''low'')
       \<and> (v \<noteq> Some (JNum 1) \<and> v \<noteq> Some (JNum 2) \<and> v \<noteq> Some (JNum 3) \<longrightarrow>
            workitem_priority flds = ''medium'')"
  using assms by (auto simp: workitem_priority_def azure_priority_def)

theorem work_item_priority_label_witness:
  "workitem_priority [(''System.Title'', JStr ''Pay''), (''Microsoft.VSTS.Common.Priority'', JNum 1)] = ''high''
   \<and> workitem_priority [(''Microsoft.VSTS.Common.Priority'', JNum 2)] = ''medium''
   \<and> workitem_priority [(''Microsoft.VSTS.Common.Priority'', JNum 3)] = ''low''
   \<and> workitem_priority [(''Microsoft.VSTS.Common.Priority'', JNum 4)] = ''medium''
   \<and> workitem_priority [(''Microsoft.VSTS.Common.Priority'', JStr ''1'')] = ''medium''
   \<and> workitem_priority [(''System.Title'', JStr ''Pay'')] = ''medium''"
  using
    work_item_priority_label [of "[(''System.Title'', JStr ''Pay''), (''Microsoft.VSTS.Common.Priority'', JNum 1)]" "Some (JNum 1)"]
    work_item_priority_label [of "[(''Microsoft.VSTS.Common.Priority'', JNum 2)]" "Some (JNum 2)"]
    work_item_priority_label [of "[(''Microsoft.VSTS.Common.Priority'', JNum 3)]" "Some (JNum 3)"]
    work_item_priority_label [of "[(''Microsoft.VSTS.Common.Priority'', JNum 4)]" "Some (JNum 4)"]
    work_item_priority_label [of "[(''Microsoft.VSTS.Common.Priority'', JStr ''1'')]" "Some (JStr ''1'')"]
    work_item_priority_label [of "[(''System.Title'', JStr ''Pay'')]" None]
  by simp

section \<open>Deleting a user story: properties\<close>

text \<open>
  C10. Deleting a user story first deletes the test cases that reference it and then the
  story row. After a successful deletion no test case references the story and the story
  is gone. When the deletion of the test cases fails, nothing is deleted and the deletion
  is reported as failed. When the deletion of the test cases succeeds and the deletion
  of the story row fails, the test cases of the story are gone, the story row is still
  there and the deletion is reported as failed: the test cases go first, so no test case
  is ever left referencing a deleted story.
\<close>

theorem delete_story_cascades:
  "(deleteUserStory s db = (db', UserStoryDeleted) \<longrightarrow>
      (\<forall>(i, f) \<in> set (test_cases db'). tc_user_story_id f \<noteq> Some s)
    \<and> (\<forall>(i, f) \<in> set (user_stories db'). i \<noteq> s)
    \<and> test_cases db' = filter (\<lambda>(j, f). tc_user_story_id f \<noteq> Some s) (test_cases db)
    \<and> user_stories db' = filter (\<lambda>(j, f). j \<noteq> s) (user_stories db))
 \<and> (\<not> fst (call_ok db) \<longrightarrow>
      snd (deleteUserStory s db) = DeleteFailed
    \<and> user_stories (fst (deleteUserStory s db)) = user_stories db
    \<and> test_cases (fst (deleteUserStory s db)) = test_cases db)
 \<and> (fst (call_ok db) \<and> \<not> fst (call_ok (snd (call_ok db))) \<longrightarrow>
      snd (deleteUserStory s db) = DeleteFailed
    \<and> user_stories (fst (deleteUserStory s db)) = user_stories db
    \<and> test_cases (fst (deleteUserStory s db))
        = filter (\<lambda>(j, f). tc_user_story_id f \<noteq> Some s) (test_cases db))"
proof (intro conjI impI)
  assume a: "deleteUserStory s db = (db', UserStoryDeleted)"
  let ?db1 = "(snd (call_ok db))\<lparr>test_cases := filter (\<lambda>(j, f). tc_user_story_id f \<noteq> Some s) (test_cases db)\<rparr>"
  from a have ok1: "fst (call_ok db)"
    by (auto simp: deleteUserStory_def delete_test_cases_of_story_eq split: if_splits prod.splits)
  with a have ok2: "fst (call_ok ?db1)"
    by (auto simp: deleteUserStory_def delete_test_cases_of_story_eq delete_story_eq split: if_splits prod.splits)
  from a ok1 ok2 have db': "db' = (snd (call_ok ?db1))\<lparr>user_stories := filter (\<lambda>(j, f). j \<noteq> s) (user_stories ?db1)\<rparr>"
    by (simp add: deleteUserStory_def delete_test_cases_of_story_eq delete_story_eq)
  show t: "test_cases db' = filter (\<lambda>(j, f). tc_user_story_id f \<noteq> Some s) (test_cases db)"
    unfolding db' by simp
  show u: "user_stories db' = filter (\<lambda>(j, f). j \<noteq> s) (user_stories db)"
    unfolding db' by simp
  show "\<forall>(i, f) \<in> set (test_cases db'). tc_user_story_id f \<noteq> Some s"
    unfolding t by auto
  show "\<forall>(i, f) \<in> set (user_stories db'). i \<noteq> s"
    unfolding u by auto
next
  assume n: "\<not> fst (call_ok db)"
  then have e: "deleteUserStory s db = (snd (call_ok db), DeleteFailed)"
    by (simp add: deleteUserStory_def delete_test_cases_of_story_eq)
  show "snd (deleteUserStory s db) = DeleteFailed" by (simp add: e)
  show "user_stories (fst (deleteUserStory s db)) = user_stories db" by (simp add: e)
  show "test_cases (fst (deleteUserStory s db)) = test_cases db" by (simp add: e)
next
  let ?db1 = "(snd (call_ok db))\<lparr>test_cases := filter (\<lambda>(j, f). tc_user_story_id f \<noteq> Some s) (test_cases db)\<rparr>"
  assume "fst (call_ok db) \<and> \<not> fst (call_ok (snd (call_ok db)))"
  then have ok1: "fst (call_ok db)" and n2: "\<not> fst (call_ok ?db1)"
    by (simp_all add: call_ok_def split: list.splits)
  then have e: "deleteUserStory s db = (snd (call_ok ?db1), DeleteFailed)"
    by (simp add: deleteUserStory_def delete_test_cases_of_story_eq delete_story_eq)
  show "snd (deleteUserStory s db) = DeleteFailed" by (simp add: e)
  show "user_stories (fst (deleteUserStory s db)) = user_stories db" by (simp add: e)
  show "test_cases (fst (deleteUserStory s db))
          = filter (\<lambda>(j, f). tc_user_story_id f \<noteq> Some s) (test_cases db)" by (simp add: e)
qed

lemma checkout_delete:
  "deleteUserStory 1 checkout_db =
     (checkout_db\<lparr>test_cases := [(11, tc_row 7 2 ''Sign in'')], user_stories := [(2, story_row 7 ''Login'')]\<rparr>,
      UserStoryDeleted)"
  by (simp add: deleteUserStory_def delete_test_cases_of_story_eq delete_story_eq checkout_db_def tc_row_def)

theorem delete_story_cascades_witness:
  "deleteUserStory 1 checkout_db =
     (checkout_db\<lparr>test_cases := [(11, tc_row 7 2 ''Sign in'')], user_stories := [(2, story_row 7 ''Login'')]\<rparr>,
      UserStoryDeleted)
   \<and> test_cases (checkout_db\<lparr>test_cases := [(11, tc_row 7 2 ''Sign in'')], user_stories := [(2, story_row 7 ''Login'')]\<rparr>)
       = filter (\<lambda>(j, f). tc_user_story_id f \<noteq> Some 1) (test_cases checkout_db)
   \<and> \<not> fst (call_ok (checkout_db\<lparr>outcomes := [False]\<rparr>))
   \<and> snd (deleteUserStory 1 (checkout_db\<lparr>outcomes := [False]\<rparr>)) = DeleteFailed
   \<and> user_stories (fst (deleteUserStory 1 (checkout_db\<lparr>outcomes := [False]\<rparr>))) = user_stories checkout_db
   \<and> test_cases (fst (deleteUserStory 1 (checkout_db\<lparr>outcomes := [False]\<rparr>))) = test_cases checkout_db
   \<and> fst (call_ok (checkout_db\<lparr>outcomes := [True, False]\<rparr>))
   \<and> \<not> fst (call_ok (snd (call_ok (checkout_db\<lparr>outcomes := [True, False]\<rparr>))))
   \<and> snd (deleteUserStory 1 (checkout_db\<lparr>outcomes := [True, False]\<rparr>)) = DeleteFailed
   \<and> map fst (user_stories (fst (deleteUserStory 1 (checkout_db\<lparr>outcomes := [True, False]\<rparr>)))) = [1, 2]
   \<and> map fst (test_cases (fst (deleteUserStory 1 (checkout_db\<lparr>outcomes := [True, False]\<rparr>)))) = [11]"
proof -
  have f: "\<not> fst (call_ok (checkout_db\<lparr>outcomes := [False]\<rparr>))"
    by (simp add: call_ok_def)
  have g: "fst (call_ok (checkout_db\<lparr>outcomes := [True, False]\<rparr>))"
    "\<not> fst (call_ok (snd (call_ok (checkout_db\<lparr>outcomes := [True, False]\<rparr>))))"
    by (simp_all add: call_ok_def)
  have rows: "map fst (user_stories checkout_db) = [1, 2]"
    "map fst (filter (\<lambda>(j, f). tc_user_story_id f \<noteq> Some 1) (test_cases checkout_db)) = [11]"
    by (simp_all add: checkout_db_def tc_row_def)
  from delete_story_cascades [of 1 "checkout_db\<lparr>outcomes := [True, False]\<rparr>" checkout_db] g rows
  have third: "snd (deleteUserStory 1 (checkout_db\<lparr>outcomes := [True, False]\<rparr>)) = DeleteFailed"
    "map fst (user_stories (fst (deleteUserStory 1 (checkout_db\<lparr>outcomes := [True, False]\<rparr>)))) = [1, 2]"
    "map fst (test_cases (fst (deleteUserStory 1 (checkout_db\<lparr>outcomes := [True, False]\<rparr>)))) = [11]"
    by simp_all
  show ?thesis
    using checkout_delete f g third
      delete_story_cascades [of 1 checkout_db "checkout_db\<lparr>test_cases := [(11, tc_row 7 2 ''Sign in'')], user_stories := [(2, story_row 7 ''Login'')]\<rparr>"]
      delete_story_cascades [of 1 "checkout_db\<lparr>outcomes := [False]\<rparr>" checkout_db]
    by simp
qed

section \<open>Test-case generation: properties\<close>

lemma delete_test_cases_of_story_in_eq:
  "delete_test_cases_of_story_in s p db =
     (if fst (call_ok db)
      then (True, (snd (call_ok db))\<lparr>test_cases :=
              filter (\<lambda>(j, f). \<not> (tc_user_story_id f = Some s \<and> tc_project_id f = p)) (test_cases db)\<rparr>)
      else (False, snd (call_ok db)))"
  by (cases "call_ok db") (use call_ok_rows(2) [of db] in \<open>simp add: delete_test_cases_of_story_in_def\<close>)

lemma insert_test_cases_eq:
  "insert_test_cases fs db =
     (if fst (call_ok db)
      then (True, (snd (call_ok db))\<lparr>test_cases := test_cases db @ zip [next_id db ..< next_id db + length fs] fs,
                                     next_id := next_id db + length fs\<rparr>)
      else (False, snd (call_ok db)))"
  by (cases "call_ok db")
     (use call_ok_rows(2) [of db] call_ok_rows(3) [of db] in \<open>simp add: insert_test_cases_def\<close>)

lemma update_story_status_test_cases [simp]:
  "test_cases (snd (update_story_status i p st db)) = test_cases db"
  by (cases "call_ok db") (use call_ok_rows(2) [of db] in \<open>simp add: update_story_status_def\<close>)

lemma to_insert_fields:
  "to_insert p s x = Inr r \<Longrightarrow>
     tc_project_id r = p \<and> tc_user_story_id r = Some s \<and> tc_status r = ''draft''"
  by (auto simp: to_insert_def split: if_splits json.splits)

lemma testCasesToInsert_fields:
  "testCasesToInsert p s xs = Inr rows \<Longrightarrow>
     length rows = length xs
     \<and> (\<forall>r \<in> set rows. tc_project_id r = p \<and> tc_user_story_id r = Some s \<and> tc_status r = ''draft'')"
proof (induction xs arbitrary: rows)
  case Nil
  then show ?case by simp
next
  case (Cons x xs)
  from Cons.prems obtain r rs where r: "to_insert p s x = Inr r"
    and rs: "testCasesToInsert p s xs = Inr rs" and rows: "rows = r # rs"
    by (auto split: sum.splits)
  from Cons.IH [OF rs] to_insert_fields [OF r] rows show ?case by simp
qed

lemma filter_zip_all:
  "\<forall>r \<in> set rows. P r \<Longrightarrow> length is = length rows \<Longrightarrow> filter (\<lambda>(i, r). P r) (zip is rows) = zip is rows"
  by (rule filter_True) (auto dest: set_zip_rightD)

lemma generate_success_steps:
  assumes gen: "generateTestCases env s db = (db', Some (GeneratedAndSaved n))"
    and p: "ge_current_project env = Some p"
  shows "\<exists>data tcs rows.
           ge_response env = ResponseBody data
         \<and> get data ''testCases'' = Some (JArr tcs)
         \<and> testCasesToInsert p s tcs = Inr rows
         \<and> n = length tcs
         \<and> fst (insert_test_cases rows (snd (delete_test_cases_of_story_in s p db)))
         \<and> db' = snd (update_story_status s p ''completed''
                   (snd (insert_test_cases rows (snd (delete_test_cases_of_story_in s p db)))))"
proof -
  from gen obtain data where data: "ge_response env = ResponseBody data"
    by (cases "ge_response env") (auto simp: generateTestCases_def split: if_splits)
  from gen data p have pre: "ge_story_known env" "ge_access_token env" "ge_openai_ready env" "data \<noteq> JNull"
    "truthy_opt (get data ''success'') \<and> truthy_opt (get data ''testCases'')"
    by (auto simp: generateTestCases_def split: if_splits)
  let ?db1 = "snd (delete_test_cases_of_story_in s p db)"
  from gen data p pre have g1: "(case get data ''testCases'' of
           Some (JArr testCases) \<Rightarrow>
             (case testCasesToInsert p s testCases of
                Inl e \<Rightarrow> (?db1, Some GenerationFailed)
              | Inr rows \<Rightarrow>
                  (let (inserted, db2) = insert_test_cases rows ?db1
                   in if \<not> inserted then (db2, Some GenerationFailed)
                      else (let (updated, db3) = update_story_status s p ''completed'' db2
                            in (db3, Some (GeneratedAndSaved (length testCases))))))
         | _ \<Rightarrow> (?db1, Some GenerationFailed)) = (db', Some (GeneratedAndSaved n))"
    by (simp add: generateTestCases_def split_beta)
  then obtain tcs where tcs: "get data ''testCases'' = Some (JArr tcs)"
    by (cases "get data ''testCases''"; cases "the (get data ''testCases'')") auto
  from g1 tcs obtain rows where rows: "testCasesToInsert p s tcs = Inr rows"
    by (cases "testCasesToInsert p s tcs") auto
  from g1 tcs rows have ins: "fst (insert_test_cases rows ?db1)"
    by (auto simp: split_beta split: if_splits)
  from g1 tcs rows ins have "n = length tcs"
    and "db' = snd (update_story_status s p ''completed'' (snd (insert_test_cases rows ?db1)))"
    by (auto simp: split_beta)
  with data tcs rows ins show ?thesis by blast
qed

lemma stub_generation:
  "generateTestCases (stub_env ''STUB'') 1 checkout_db = (regenerated_db, Some (GeneratedAndSaved 2))"
  by code_simp

text \<open>
  Regeneration when the store carries out the delete. When \<open>generateTestCases\<close> ends with
  its success message and the delete call succeeded, the rows of the (project, story)
  pair are exactly the rows built from the generated test cases, under identifiers the
  store had not handed out before; the rows of every other pair are as before; and no
  earlier row of the pair is left, whatever its title. The delete is restricted to the
  current project, so the statement is about the rows of the pair.
\<close>

lemma regeneration_replaces_test_cases:
  assumes gen: "generateTestCases env s db = (db', Some (GeneratedAndSaved n))"
    and p: "ge_current_project env = Some p"
    and del: "fst (call_ok db)"
    and fresh: "\<forall>(i, f) \<in> set (test_cases db). i < next_id db"
  shows "\<exists>data tcs rows.
           ge_response env = ResponseBody data
         \<and> get data ''testCases'' = Some (JArr tcs)
         \<and> testCasesToInsert p s tcs = Inr rows
         \<and> length rows = n
         \<and> filter (\<lambda>(i, f). tc_user_story_id f = Some s \<and> tc_project_id f = p) (test_cases db')
             = zip [next_id db ..< next_id db + n] rows
         \<and> filter (\<lambda>(i, f). \<not> (tc_user_story_id f = Some s \<and> tc_project_id f = p)) (test_cases db')
             = filter (\<lambda>(i, f). \<not> (tc_user_story_id f = Some s \<and> tc_project_id f = p)) (test_cases db)
         \<and> (\<forall>(i, f) \<in> set (test_cases db).
               tc_user_story_id f = Some s \<and> tc_project_id f = p \<longrightarrow> (i, f) \<notin> set (test_cases db'))"
proof -
  let ?is = "\<lambda>(i, f). tc_user_story_id f = Some s \<and> tc_project_id f = p"
  let ?not = "\<lambda>(i, f). \<not> (tc_user_story_id f = Some s \<and> tc_project_id f = p)"
  let ?db1 = "snd (delete_test_cases_of_story_in s p db)"
  from generate_success_steps [OF gen p] obtain data tcs rows where
    data: "ge_response env = ResponseBody data" and tcs: "get data ''testCases'' = Some (JArr tcs)"
    and rows: "testCasesToInsert p s tcs = Inr rows" and n: "n = length tcs"
    and ins: "fst (insert_test_cases rows ?db1)"
    and db': "db' = snd (update_story_status s p ''completed'' (snd (insert_test_cases rows ?db1)))"
    by blast
  from testCasesToInsert_fields [OF rows] n have len: "length rows = n"
    and all: "\<forall>r \<in> set rows. tc_user_story_id r = Some s \<and> tc_project_id r = p"
    by auto
  have t1: "test_cases ?db1 = filter ?not (test_cases db)" and n1: "next_id ?db1 = next_id db"
    using del by (simp_all add: delete_test_cases_of_story_in_eq)
  have ok2: "fst (call_ok ?db1)"
    using ins by (simp add: insert_test_cases_eq split: if_splits)
  have t': "test_cases db' = filter ?not (test_cases db) @ zip [next_id db ..< next_id db + n] rows"
    unfolding db' using ok2 t1 n1 len by (simp add: insert_test_cases_eq)
  have z: "filter ?is (zip [next_id db ..< next_id db + n] rows) = zip [next_id db ..< next_id db + n] rows"
    using filter_zip_all [of rows "\<lambda>r. tc_user_story_id r = Some s \<and> tc_project_id r = p" "[next_id db ..< next_id db + n]"] all len
    by simp
  have zn: "filter ?not (zip [next_id db ..< next_id db + n] rows) = []"
    using all by (auto simp: filter_empty_conv dest: set_zip_rightD)
  have fn: "filter ?is (filter ?not (test_cases db)) = []"
    by (auto simp: filter_empty_conv)
  have a: "filter ?is (test_cases db') = zip [next_id db ..< next_id db + n] rows"
    unfolding t' using z fn by simp
  have b: "filter ?not (test_cases db') = filter ?not (test_cases db)"
    unfolding t' using zn by simp
  have c0: "(i, f) \<notin> set (test_cases db')"
    if m: "(i, f) \<in> set (test_cases db)" and us: "tc_user_story_id f = Some s" "tc_project_id f = p" for i f
  proof
    assume m': "(i, f) \<in> set (test_cases db')"
    have nf: "(i, f) \<notin> set (filter ?not (test_cases db))" using us by simp
    from m' have "(i, f) \<in> set (filter ?not (test_cases db)) \<or> (i, f) \<in> set (zip [next_id db ..< next_id db + n] rows)"
      unfolding t' by (simp only: set_append Un_iff)
    with nf have "(i, f) \<in> set (zip [next_id db ..< next_id db + n] rows)"
      by blast
    then have "next_id db \<le> i" by (auto dest: set_zip_leftD)
    moreover from fresh m have "i < next_id db" by auto
    ultimately show False by simp
  qed
  have c: "\<forall>(i, f) \<in> set (test_cases db).
             tc_user_story_id f = Some s \<and> tc_project_id f = p \<longrightarrow> (i, f) \<notin> set (test_cases db')"
    using c0 by blast
  from data tcs rows len a b c show ?thesis by blast
qed

lemma regeneration_replaces_checkout:
  "generateTestCases (stub_env ''STUB'') 1 checkout_db = (regenerated_db, Some (GeneratedAndSaved 2))
   \<and> (10, tc_row 7 1 ''Pay as guest'') \<in> set (test_cases checkout_db)
   \<and> (10, tc_row 7 1 ''Pay as guest'') \<notin> set (test_cases regenerated_db)
   \<and> map fst (filter (\<lambda>(i, f). tc_user_story_id f = Some 1 \<and> tc_project_id f = 7) (test_cases regenerated_db))
        = [20, 21]
   \<and> map (tc_title \<circ> snd) (test_cases regenerated_db)
        = [JStr ''Sign in'', JStr ''Pay as guest'', JStr ''Reject an empty cart'']"
proof -
  have p: "ge_current_project (stub_env ''STUB'') = Some 7"
    by (simp add: stub_env_def)
  have del: "fst (call_ok checkout_db)"
    by (simp add: checkout_db_def)
  have fresh: "\<forall>(i, f) \<in> set (test_cases checkout_db). i < next_id checkout_db"
    by (simp add: checkout_db_def)
  have m: "(10, tc_row 7 1 ''Pay as guest'') \<in> set (test_cases checkout_db)"
    by (simp add: checkout_db_def)
  have old: "tc_user_story_id (tc_row 7 1 ''Pay as guest'') = Some 1 \<and> tc_project_id (tc_row 7 1 ''Pay as guest'') = 7"
    by (simp add: tc_row_def)
  from regeneration_replaces_test_cases [OF stub_generation p del fresh]
  obtain rows where len: "length rows = 2"
    and new: "filter (\<lambda>(i, f). tc_user_story_id f = Some 1 \<and> tc_project_id f = 7) (test_cases regenerated_db)
              = zip [next_id checkout_db ..< next_id checkout_db + 2] rows"
    and gone: "\<forall>(i, f) \<in> set (test_cases checkout_db).
               tc_user_story_id f = Some 1 \<and> tc_project_id f = 7 \<longrightarrow> (i, f) \<notin> set (test_cases regenerated_db)"
    by blast
  from gone m old have g: "(10, tc_row 7 1 ''Pay as guest'') \<notin> set (test_cases regenerated_db)"
    by blast
  from len have "map fst (zip [next_id checkout_db ..< next_id checkout_db + 2] rows) = [20, 21]"
    by (simp add: checkout_db_def upt_rec [of 20] upt_rec [of 21])
  with new have ids: "map fst (filter (\<lambda>(i, f). tc_user_story_id f = Some 1 \<and> tc_project_id f = 7) (test_cases regenerated_db)) = [20, 21]"
    by simp
  have titles: "map (tc_title \<circ> snd) (test_cases regenerated_db)
        = [JStr ''Sign in'', JStr ''Pay as guest'', JStr ''Reject an empty cart'']"
    by (simp add: regenerated_db_def tc_row_def)
  from stub_generation m g ids titles show ?thesis by blast
qed

text \<open>
  C3 asks that after every successful regeneration the earlier rows of the story are
  deleted and the story's test cases are exactly the newly generated set. The answer of
  the store to the delete is not read, while the answer to the insert is: when the store
  rejects the delete and carries out the insert, the run still ends with its success
  message for two test cases, and the earlier row of the story (identifier 10, titled
  like one of the generated test cases) stands beside the two new rows, so the story has
  three test cases.
\<close>

theorem failed_delete_keeps_prior_rows:
  "snd (generateTestCases (stub_env ''STUB'') 1 (checkout_db\<lparr>outcomes := [False]\<rparr>))
     = Some (GeneratedAndSaved 2)
   \<and> map (\<lambda>(i, f). (i, tc_title f))
        (filter (\<lambda>(i, f). tc_user_story_id f = Some 1 \<and> tc_project_id f = 7)
           (test_cases (fst (generateTestCases (stub_env ''STUB'') 1 (checkout_db\<lparr>outcomes := [False]\<rparr>)))))
      = [(10, JStr ''Pay as guest''), (20, JStr ''Pay as guest''), (21, JStr ''Reject an empty cart'')]
   \<and> (10, tc_row 7 1 ''Pay as guest'') \<in> set (test_cases checkout_db)
   \<and> (10, tc_row 7 1 ''Pay as guest'')
        \<in> set (test_cases (fst (generateTestCases (stub_env ''STUB'') 1 (checkout_db\<lparr>outcomes := [False]\<rparr>))))"
  by code_simp

text \<open>
  C2 asks that every newly persisted test-case row carry the status \<open>not-run\<close>. In the
  scenario of the specification (a story \<open>Guest Checkout\<close> and a completion that is a
  two-element array) the two rows written for the story carry \<open>draft\<close>, which is not a
  status of a test case; the untouched row of the other story shows the value the
  rest of the application uses.
\<close>

theorem generated_rows_stamped_draft:
  "map (\<lambda>(i, f). (i, tc_user_story_id f, tc_status f))
       (test_cases (fst (generateTestCases (stub_env ''STUB'') 1 checkout_db)))
     = [(11, Some 2, ''not-run''), (20, Some 1, ''draft''), (21, Some 1, ''draft'')]"
  by code_simp

lemma error_response_body [simp]:
  "snd (error_response st msg) \<noteq> JNull" "get (snd (error_response st msg)) ''success'' = None"
  by (simp_all add: error_response_def)

lemma outer_catch_body [simp]:
  "snd (outer_catch message) \<noteq> JNull" "get (snd (outer_catch message)) ''success'' = None"
  by (simp_all add: outer_catch_def)

lemma parse_failure_body [simp]:
  "snd (parse_failure content) \<noteq> JNull" "get (snd (parse_failure content)) ''success'' = None"
  "get (snd (parse_failure content)) ''rawContent'' = Some (JStr content)"
  "fst (parse_failure content) = 500"
  by (simp_all add: parse_failure_def)

lemma parse_branch_not_array:
  assumes "\<forall>xs. JSON_parse content \<noteq> Some (JArr xs)"
  shows "parse_branch JSON_parse story dep now content = parse_failure content"
  using assms by (cases "JSON_parse content"; cases "the (JSON_parse content)") (auto simp: parse_branch_def)

lemma no_success_no_change:
  assumes "ge_response env = ResponseBody data" "data \<noteq> JNull" "get data ''success'' = None"
  shows "generateTestCases env s db =
           (db, if \<not> ge_story_known env then None
                else if \<not> ge_access_token env then Some AuthenticationError
                else if \<not> ge_openai_ready env then Some NotConfigured else None)"
  using assms by (simp add: generateTestCases_def)

lemma function_without_array:
  assumes "\<forall>xs. JSON_parse content \<noteq> Some (JArr xs)" "rq_completion req = CompletionContent content"
  shows "snd (generate_test_cases_function JSON_parse StringToNumber now req) \<noteq> JNull
       \<and> get (snd (generate_test_cases_function JSON_parse StringToNumber now req)) ''success'' = None"
  using assms
  by (simp add: generate_test_cases_function_def parse_branch_not_array
      split: option.splits sum.splits)

text \<open>
  C8. When the text of the completion does not parse as a JSON array, the function answers
  with status 500 and a body that carries the raw text and no success flag, and the client
  that reads this answer changes no row of the store and shows neither the success message
  nor a retry.
\<close>

theorem malformed_completion_fails:
  assumes "\<forall>xs. JSON_parse content \<noteq> Some (JArr xs)"
    and "rq_completion req = CompletionContent content"
    and "ge_response env = ResponseBody (snd (generate_test_cases_function JSON_parse StringToNumber now req))"
  shows "parse_branch JSON_parse story dep now content = parse_failure content
       \<and> fst (parse_failure content) = 500
       \<and> get (snd (parse_failure content)) ''rawContent'' = Some (JStr content)
       \<and> get (snd (parse_failure content)) ''success'' = None
       \<and> fst (generateTestCases env s db) = db
       \<and> snd (generateTestCases env s db) \<notin> {Some (GeneratedAndSaved n), Some GenerationFailed}"
proof -
  from function_without_array [where JSON_parse = JSON_parse and content = content, OF assms(1,2)] assms(3)
  have "generateTestCases env s db =
           (db, if \<not> ge_story_known env then None
                else if \<not> ge_access_token env then Some AuthenticationError
                else if \<not> ge_openai_ready env then Some NotConfigured else None)"
    by (intro no_success_no_change) auto
  then have "fst (generateTestCases env s db) = db"
    and "snd (generateTestCases env s db) \<notin> {Some (GeneratedAndSaved n), Some GenerationFailed}"
    by simp_all
  with parse_branch_not_array [where JSON_parse = JSON_parse and content = content, OF assms(1)] show ?thesis by simp
qed

lemma stub_function:
  "generate_test_cases_function stub_parse stub_number ''2025-01-01T00:00:00.000Z'' (stub_request content)
     = parse_branch stub_parse
         (JObj [(''id'', JNum 1), (''project_id'', JNum 7), (''title'', JStr ''Guest Checkout''),
                (''description'', JStr ''As a guest I want to check out without registering'')])
         (Some (JStr ''gpt-4o'')) ''2025-01-01T00:00:00.000Z'' content"
  by (simp add: generate_test_cases_function_def stub_request_def truncate_description_def
      longer_than_def config_complete_def)

theorem malformed_completion_fails_witness:
  "generate_test_cases_function stub_parse stub_number ''2025-01-01T00:00:00.000Z'' (stub_request ''Sure! Here are the test cases'')
     = (500, JObj [(''error'', JStr ''Failed to parse generated test cases''),
                   (''details'', JStr ''Azure OpenAI response was not valid JSON''),
                   (''rawContent'', JStr ''Sure! Here are the test cases'')])
   \<and> fst (generateTestCases (stub_env ''Sure! Here are the test cases'') 1 checkout_db) = checkout_db"
proof -
  have a: "\<forall>xs. stub_parse ''Sure! Here are the test cases'' \<noteq> Some (JArr xs)"
    by (simp add: stub_parse_def)
  have b: "rq_completion (stub_request ''Sure! Here are the test cases'') = CompletionContent ''Sure! Here are the test cases''"
    by (simp add: stub_request_def)
  have c: "ge_response (stub_env ''Sure! Here are the test cases'') =
      ResponseBody (snd (generate_test_cases_function stub_parse stub_number ''2025-01-01T00:00:00.000Z''
         (stub_request ''Sure! Here are the test cases'')))"
    by (simp add: stub_env_def)
  from malformed_completion_fails [where JSON_parse = stub_parse
      and content = "''Sure! Here are the test cases''", OF a b c] stub_function [of "''Sure! Here are the test cases''"]
  show ?thesis by (simp add: parse_failure_def)
qed

section \<open>Synchronisation: properties\<close>

lemma single_id_Some: "single_id ms = Some k \<Longrightarrow> \<exists>g. ms = [(k, g)]"
  unfolding single_id_def
  by (cases ms; cases "tl ms"; cases "hd ms") auto

lemma select_story_single_eq:
  "select_story_single p t db =
     (if fst (call_ok db) then single_id (filter (\<lambda>(i, f). us_project_id f = p \<and> us_title f = t) (user_stories db)) else None,
      snd (call_ok db))"
proof (cases "call_ok db")
  case (Pair a b)
  then have "user_stories b = user_stories db"
    using call_ok_rows(1) [of db] by simp
  with Pair show ?thesis
    by (simp add: select_story_single_def single_id_def)
qed

lemma filter_single:
  assumes "distinct (map fst rows)" "(i, f) \<in> set rows" "P (i, f)"
    and "\<And>j g. (j, g) \<in> set rows \<Longrightarrow> P (j, g) \<Longrightarrow> j = i"
  shows "filter P rows = [(i, f)]"
  using assms
proof (induction rows)
  case Nil
  then show ?case by simp
next
  case (Cons r rows)
  obtain j g where r: "r = (j, g)" by (cases r)
  show ?case
  proof (cases "r = (i, f)")
    case True
    have "\<not> P x" if "x \<in> set rows" for x
    proof
      assume px: "P x"
      obtain k h where kh: "x = (k, h)" by (cases x)
      from that kh px Cons.prems(4) [of k h] have "k = i" by simp
      with that kh have "i \<in> fst ` set rows" by (simp add: rev_image_eqI)
      with Cons.prems(1) True show False by simp
    qed
    then have "filter P rows = []" by simp
    with True Cons.prems(3) show ?thesis by simp
  next
    case False
    with Cons.prems(2) have mem: "(i, f) \<in> set rows" by simp
    have np: "\<not> P r"
    proof
      assume "P r"
      with r Cons.prems(4) [of j g] have "j = i" by simp
      moreover from mem have "i \<in> fst ` set rows" by (simp add: rev_image_eqI)
      ultimately show False using r Cons.prems(1) by simp
    qed
    have "filter P rows = [(i, f)]"
    proof (rule Cons.IH)
      show "distinct (map fst rows)" using Cons.prems(1) by simp
      show "(i, f) \<in> set rows" by (rule mem)
      show "P (i, f)" by (rule Cons.prems(3))
      show "\<And>j g. (j, g) \<in> set rows \<Longrightarrow> P (j, g) \<Longrightarrow> j = i"
      proof -
        fix j g assume "(j, g) \<in> set rows" "P (j, g)"
        then show "j = i" using Cons.prems(4) [of j g] by simp
      qed
    qed
    with np show ?thesis by simp
  qed
qed

lemma select_single_Some:
  assumes "fst (select_story_single p t db) = Some k"
  shows "\<exists>g. (k, g) \<in> set (user_stories db) \<and> us_project_id g = p \<and> us_title g = t"
proof -
  let ?ms = "filter (\<lambda>(i, f). us_project_id f = p \<and> us_title f = t) (user_stories db)"
  from assms have "single_id ?ms = Some k"
    by (simp add: select_story_single_eq split: if_splits)
  then obtain g where "?ms = [(k, g)]" using single_id_Some by blast
  then have "(k, g) \<in> set ?ms" by simp
  then show ?thesis by auto
qed

lemma distinct_fst_unique:
  "distinct (map fst rows) \<Longrightarrow> (i, f) \<in> set rows \<Longrightarrow> (i, g) \<in> set rows \<Longrightarrow> f = g"
  by (induction rows) (auto simp: rev_image_eqI)

text \<open>
  C1, as amended. While the calls to the store succeed, a fetched item and an existing
  story of the target project that is the only story of the project with its title are
  treated as the same story (the lookup returns that row, and the item updates it and
  inserts nothing) if and only if their titles are equal as strings, letter case
  included; with a different title the existing row is left as it is.
\<close>

theorem sync_same_story_iff_exact_title:
  assumes ok: "outcomes db = []"
    and d: "distinct (map fst (user_stories db))"
    and mem: "(i, f) \<in> set (user_stories db)"
    and proj: "us_project_id f = p"
    and only: "\<forall>(j, g) \<in> set (user_stories db). us_project_id g = p \<and> us_title g = us_title f \<longrightarrow> j = i"
  shows "((fst (select_story_single p t db) = Some i) = (t = us_title f))
       \<and> (t = us_title f \<longrightarrow>
            user_stories (fst (snd (sync_story p t (Inr (upd, ins)) (db, n))))
              = map (\<lambda>(j, g). if j = i then (j, upd g) else (j, g)) (user_stories db))
       \<and> (t \<noteq> us_title f \<longrightarrow>
            (i, f) \<in> set (user_stories (fst (snd (sync_story p t (Inr (upd, ins)) (db, n))))))"
proof -
  let ?P = "\<lambda>(j, g). us_project_id g = p \<and> us_title g = us_title f"
  have single: "filter ?P (user_stories db) = [(i, f)]"
  proof (rule filter_single [OF d mem])
    show "?P (i, f)" using proj by simp
    fix j g assume "(j, g) \<in> set (user_stories db)" "?P (j, g)"
    with only show "j = i" by blast
  qed
  have eq: "select_story_single p t db = (Some i, db)" if "t = us_title f"
    using single ok that by (simp add: select_story_single_eq single_id_def)
  have neq: "fst (select_story_single p t db) \<noteq> Some i" if t: "t \<noteq> us_title f"
  proof
    assume "fst (select_story_single p t db) = Some i"
    from select_single_Some [OF this] obtain g where g: "(i, g) \<in> set (user_stories db)" "us_title g = t"
      by blast
    from distinct_fst_unique [OF d mem g(1)] g(2) t show False by simp
  qed
  have a: "(fst (select_story_single p t db) = Some i) = (t = us_title f)"
    using eq neq by (cases "t = us_title f") simp_all
  have b: "user_stories (fst (snd (sync_story p t (Inr (upd, ins)) (db, n))))
              = map (\<lambda>(j, g). if j = i then (j, upd g) else (j, g)) (user_stories db)" if "t = us_title f"
    using eq [OF that] ok by (simp add: sync_story_def update_story_def)
  have c: "(i, f) \<in> set (user_stories (fst (snd (sync_story p t (Inr (upd, ins)) (db, n)))))" if t: "t \<noteq> us_title f"
  proof (cases "fst (select_story_single p t db)")
    case None
    then have "select_story_single p t db = (None, db)"
      using ok by (simp add: select_story_single_eq)
    then show ?thesis using ok mem by (simp add: sync_story_def insert_story_def)
  next
    case (Some k)
    then have s: "select_story_single p t db = (Some k, db)"
      using ok by (simp add: select_story_single_eq)
    from neq [OF t] Some have "k \<noteq> i" by simp
    then have "(i, f) \<in> (\<lambda>(j, g). if j = k then (j, upd g) else (j, g)) ` set (user_stories db)"
      using mem by (simp add: rev_image_eqI)
    then show ?thesis using s ok by (simp add: sync_story_def update_story_def)
  qed
  from a b c show ?thesis by blast
qed

theorem sync_same_story_iff_exact_title_witness:
  "fst (select_story_single 7 ''Login'' checkout_db) = Some 2
   \<and> fst (select_story_single 7 ''login'' checkout_db) \<noteq> Some 2
   \<and> map fst (user_stories (fst (snd (sync_story 7 ''Login'' (azure_payloads 7 (login_item\<lparr>it_title := ''Login''\<rparr>))
        (checkout_db, 0))))) = [1, 2]
   \<and> (2, story_row 7 ''Login'') \<in> set (user_stories (fst (snd (sync_story 7 ''login'' (azure_payloads 7 login_item)
        (checkout_db, 0)))))"
proof -
  have ok: "outcomes checkout_db = []" by (simp add: checkout_db_def)
  have d: "distinct (map fst (user_stories checkout_db))" by (simp add: checkout_db_def)
  have mem: "(2, story_row 7 ''Login'') \<in> set (user_stories checkout_db)" by (simp add: checkout_db_def)
  have proj: "us_project_id (story_row 7 ''Login'') = 7" by (simp add: story_row_def)
  have only: "\<forall>(j, g) \<in> set (user_stories checkout_db).
      us_project_id g = 7 \<and> us_title g = us_title (story_row 7 ''Login'') \<longrightarrow> j = 2"
    by (simp add: checkout_db_def story_row_def)
  have t: "us_title (story_row 7 ''Login'') = ''Login''" by (simp add: story_row_def)
  note th = sync_same_story_iff_exact_title [OF ok d mem proj only]
  from th [of "''Login''"] t have a: "fst (select_story_single 7 ''Login'' checkout_db) = Some 2"
    by simp
  from th [of "''login''"] t have b: "fst (select_story_single 7 ''login'' checkout_db) \<noteq> Some 2"
    by simp
  from th [of "''Login''" "azure_update (login_item\<lparr>it_title := ''Login''\<rparr>)"
              "azure_insert 7 (login_item\<lparr>it_title := ''Login''\<rparr>)" 0] t
  have c: "map fst (user_stories (fst (snd (sync_story 7 ''Login'' (azure_payloads 7 (login_item\<lparr>it_title := ''Login''\<rparr>))
        (checkout_db, 0))))) = [1, 2]"
    by (simp add: azure_payloads_def checkout_db_def split_beta comp_def)
  from th [of "''login''" "azure_update login_item" "azure_insert 7 login_item" 0] t
  have e: "(2, story_row 7 ''Login'') \<in> set (user_stories (fst (snd (sync_story 7 ''login'' (azure_payloads 7 login_item)
        (checkout_db, 0)))))"
    by (simp add: azure_payloads_def)
  from a b c e show ?thesis by blast
qed

text \<open>
  C1 as stated fails: the fetched title \<open>login\<close> and the existing title \<open>Login\<close> are equal
  under case-insensitive comparison, yet for both providers the item is inserted as a
  third story and the existing row is not the one written.
\<close>

theorem case_variant_title_counterexample:
  "toLowerCase (it_title login_item) = toLowerCase ''Login''
   \<and> (2, story_row 7 ''Login'') \<in> set (user_stories checkout_db)
   \<and> map (\<lambda>(i, f). (i, us_title f))
        (user_stories (fst (snd (sync_story 7 (it_title login_item) (jira_payloads 7 login_item) (checkout_db, 0)))))
      = [(1, ''Guest Checkout''), (2, ''Login''), (20, ''login'')]
   \<and> map (\<lambda>(i, f). (i, us_title f))
        (user_stories (fst (snd (sync_story 7 (it_title login_item) (azure_payloads 7 login_item) (checkout_db, 0)))))
      = [(1, ''Guest Checkout''), (2, ''Login''), (20, ''login'')]"
  by code_simp

text \<open>
  C4 asks that a second run against an unchanged feed only update. In a project that
  already holds two stories titled \<open>login\<close>, the lookup \<open>single()\<close> of a fetched \<open>login\<close>
  matches two rows and returns no data, so each run inserts one more row: three stories
  after the first run, four after the second.
\<close>

theorem second_sync_inserts_again:
  "map (\<lambda>(i, f). (i, us_title f)) (user_stories duplicates_db) = [(1, ''login''), (2, ''login'')]
   \<and> map (\<lambda>(i, f). (i, us_title f))
        (user_stories (sr_db (syncFromIntegrations (feed_env (Reaches (TrackerAnswers 200 [login_item])) FetchThrows)
           duplicates_db)))
      = [(1, ''login''), (2, ''login''), (3, ''login'')]
   \<and> map (\<lambda>(i, f). (i, us_title f))
        (user_stories (sr_db (syncFromIntegrations (feed_env (Reaches (TrackerAnswers 200 [login_item])) FetchThrows)
           (sr_db (syncFromIntegrations (feed_env (Reaches (TrackerAnswers 200 [login_item])) FetchThrows)
              duplicates_db)))))
      = [(1, ''login''), (2, ''login''), (3, ''login''), (4, ''login'')]"
  by code_simp

text \<open>
  Apart from that case the second run only updates: when no two stories of the project
  share a title before the first run and the calls to the store succeed, a second run
  with the same provider answers leaves the stories' identifiers as the first run left
  them.
\<close>

lemma wf_jira: "wf_payloads p (it_title it) (jira_payloads p it)"
  by (simp add: wf_payloads_def jira_payloads_def keeps_key_def jira_update_def jira_insert_def
      split: sum.splits)

lemma wf_azure: "wf_payloads p (it_title it) (azure_payloads p it)"
  by (simp add: wf_payloads_def azure_payloads_def keeps_key_def azure_update_def azure_insert_def)

lemma single_id_length: "(single_id ms \<noteq> None) = (length ms = 1)"
  unfolding single_id_def by (cases ms; cases "tl ms"; cases "hd ms") auto

lemma title_count_update:
  assumes "keeps_key upd"
  shows "title_count p t (map (\<lambda>(j, g). if j = i then (j, upd g) else (j, g)) rows) = title_count p t rows"
proof -
  let ?h = "\<lambda>(j, g). if j = i then (j, upd g) else (j, g)"
  let ?P = "\<lambda>(i, f). us_project_id f = p \<and> us_title f = t"
  have "?P (?h r) = ?P r" for r
    using assms by (cases r) (simp add: keeps_key_def)
  then have "filter (?P \<circ> ?h) rows = filter ?P rows"
    by (intro filter_cong) simp_all
  then show ?thesis by (simp add: title_count_def filter_map)
qed

lemma map_fst_update:
  "map fst (map (\<lambda>(j, g). if j = i then (j, upd g) else (j, g)) rows) = map fst rows"
  by (induction rows) auto

lemma sync_story_update:
  assumes ok: "outcomes db = []" and one: "title_count p t (user_stories db) = 1"
    and wf: "wf_payloads p t (Inr (upd, ins))"
  shows "\<exists>db'. sync_story p t (Inr (upd, ins)) (db, n) = (False, db', Suc n)
           \<and> outcomes db' = []
           \<and> map fst (user_stories db') = map fst (user_stories db)
           \<and> (\<forall>t'. title_count p t' (user_stories db') = title_count p t' (user_stories db))"
proof -
  let ?ms = "filter (\<lambda>(i, f). us_project_id f = p \<and> us_title f = t) (user_stories db)"
  from one have "length ?ms = 1" by (simp add: title_count_def)
  then have "single_id ?ms \<noteq> None" by (simp only: single_id_length)
  then obtain i where i: "single_id ?ms = Some i" by blast
  from wf have k: "keeps_key upd" by (simp add: wf_payloads_def)
  have s: "sync_story p t (Inr (upd, ins)) (db, n) =
      (False, db\<lparr>user_stories := map (\<lambda>(j, g). if j = i then (j, upd g) else (j, g)) (user_stories db)\<rparr>, Suc n)"
    using ok i by (simp add: sync_story_def select_story_single_eq update_story_def)
  show ?thesis
    unfolding s using ok map_fst_update [of i upd "user_stories db"]
    by (simp add: title_count_update [OF k])
qed

lemma sync_story_insert:
  assumes ok: "outcomes db = []" and zero: "title_count p t (user_stories db) = 0"
    and wf: "wf_payloads p t (Inr (upd, ins))"
  shows "\<exists>db'. sync_story p t (Inr (upd, ins)) (db, n) = (False, db', Suc n)
           \<and> outcomes db' = []
           \<and> (\<forall>t'. title_count p t' (user_stories db')
                     = title_count p t' (user_stories db) + (if t' = t then 1 else 0))"
proof -
  let ?ms = "filter (\<lambda>(i, f). us_project_id f = p \<and> us_title f = t) (user_stories db)"
  from zero have "length ?ms \<noteq> 1" by (simp add: title_count_def)
  then have i: "single_id ?ms = None" using single_id_length [of ?ms] by simp
  from wf have k: "us_project_id ins = p" "us_title ins = t" by (simp_all add: wf_payloads_def)
  have s: "sync_story p t (Inr (upd, ins)) (db, n) =
      (False, db\<lparr>user_stories := user_stories db @ [(next_id db, ins)], next_id := Suc (next_id db)\<rparr>, Suc n)"
    using ok i by (simp add: sync_story_def select_story_single_eq insert_story_def)
  show ?thesis
    unfolding s using ok k by (auto simp: title_count_def)
qed

lemma sync_story_throw:
  assumes ok: "outcomes db = []"
  shows "sync_story p t (Inl e) (db, n) = (True, db, n)"
  using ok by (simp add: sync_story_def select_story_single_eq)


lemma loop_first_run:
  assumes wf: "\<And>it. wf_payloads p (it_title it) (mk it)"
  shows "outcomes db = [] \<Longrightarrow> (\<forall>t. title_count p t (user_stories db) \<le> 1) \<Longrightarrow>
         stories_loop mk p items (db, n) = (thr, db', n') \<Longrightarrow>
           outcomes db' = []
         \<and> (\<forall>t. title_count p t (user_stories db') \<le> 1)
         \<and> (\<forall>t. title_count p t (user_stories db) \<le> title_count p t (user_stories db'))
         \<and> (\<forall>it \<in> set (takeWhile (\<lambda>it. \<not> isl (mk it)) items).
               title_count p (it_title it) (user_stories db') = 1)"
proof (induction items arbitrary: db n)
  case Nil
  then show ?case by simp
next
  case (Cons it items)
  show ?case
  proof (cases "mk it")
    case (Inl e)
    with Cons.prems have "db' = db"
      by (simp add: sync_story_throw)
    with Cons.prems Inl show ?thesis by simp
  next
    case (Inr pl)
    obtain upd ins where pl: "pl = (upd, ins)" by (cases pl)
    from wf [of it] Inr pl have w: "wf_payloads p (it_title it) (Inr (upd, ins))" by simp
    let ?c = "title_count p (it_title it) (user_stories db)"
    from Cons.prems(2) have c1: "?c \<le> 1" by simp
    have "\<exists>db1. sync_story p (it_title it) (Inr (upd, ins)) (db, n) = (False, db1, Suc n)
            \<and> outcomes db1 = []
            \<and> (\<forall>t. title_count p t (user_stories db1) \<le> 1)
            \<and> (\<forall>t. title_count p t (user_stories db) \<le> title_count p t (user_stories db1))
            \<and> title_count p (it_title it) (user_stories db1) = 1"
    proof (cases "?c = 1")
      case True
      from sync_story_update [OF Cons.prems(1) True w, of n] obtain db1 where
        "sync_story p (it_title it) (Inr (upd, ins)) (db, n) = (False, db1, Suc n)"
        "outcomes db1 = []"
        "\<forall>t'. title_count p t' (user_stories db1) = title_count p t' (user_stories db)"
        by blast
      with True Cons.prems(2) show ?thesis by auto
    next
      case False
      with c1 have z: "?c = 0" by simp
      from sync_story_insert [OF Cons.prems(1) z w, of n] obtain db1 where
        a: "sync_story p (it_title it) (Inr (upd, ins)) (db, n) = (False, db1, Suc n)"
        and b: "outcomes db1 = []"
        and c: "\<forall>t'. title_count p t' (user_stories db1)
                  = title_count p t' (user_stories db) + (if t' = it_title it then 1 else 0)"
        by blast
      have "\<forall>t. title_count p t (user_stories db1) \<le> 1"
      proof
        fix t
        show "title_count p t (user_stories db1) \<le> 1"
        proof (cases "t = it_title it")
          case True
          with c z show ?thesis by simp
        next
          case False
          with c Cons.prems(2) show ?thesis by simp
        qed
      qed
      moreover from c have "\<forall>t. title_count p t (user_stories db) \<le> title_count p t (user_stories db1)"
        by simp
      moreover from c z have "title_count p (it_title it) (user_stories db1) = 1" by simp
      ultimately show ?thesis using a b by blast
    qed
    then obtain db1 where s: "sync_story p (it_title it) (Inr (upd, ins)) (db, n) = (False, db1, Suc n)"
      and o1: "outcomes db1 = []"
      and i1: "\<forall>t. title_count p t (user_stories db1) \<le> 1"
      and m1: "\<forall>t. title_count p t (user_stories db) \<le> title_count p t (user_stories db1)"
      and e1: "title_count p (it_title it) (user_stories db1) = 1"
      by blast
    from Cons.prems(3) s Inr pl have rest: "stories_loop mk p items (db1, Suc n) = (thr, db', n')"
      by simp
    from Cons.IH [OF o1 i1 rest] have o': "outcomes db' = []"
      and i': "\<forall>t. title_count p t (user_stories db') \<le> 1"
      and m': "\<forall>t. title_count p t (user_stories db1) \<le> title_count p t (user_stories db')"
      and e': "\<forall>it \<in> set (takeWhile (\<lambda>it. \<not> isl (mk it)) items).
               title_count p (it_title it) (user_stories db') = 1"
      by simp_all
    have mono: "\<forall>t. title_count p t (user_stories db) \<le> title_count p t (user_stories db')"
      using m1 m' by (meson order_trans)
    from e1 m' i' have "title_count p (it_title it) (user_stories db') = 1"
      by (metis le_antisym)
    with o' i' mono e' Inr show ?thesis by simp
  qed
qed

lemma loop_second_run:
  assumes wf: "\<And>it. wf_payloads p (it_title it) (mk it)"
  shows "outcomes db = [] \<Longrightarrow>
         (\<forall>it \<in> set (takeWhile (\<lambda>it. \<not> isl (mk it)) items). title_count p (it_title it) (user_stories db) = 1) \<Longrightarrow>
         stories_loop mk p items (db, n) = (thr, db', n') \<Longrightarrow>
           outcomes db' = []
         \<and> map fst (user_stories db') = map fst (user_stories db)
         \<and> (\<forall>t. title_count p t (user_stories db') = title_count p t (user_stories db))"
proof (induction items arbitrary: db n)
  case Nil
  then show ?case by simp
next
  case (Cons it items)
  show ?case
  proof (cases "mk it")
    case (Inl e)
    with Cons.prems have "db' = db"
      by (simp add: sync_story_throw)
    with Cons.prems show ?thesis by simp
  next
    case (Inr pl)
    obtain upd ins where pl: "pl = (upd, ins)" by (cases pl)
    from wf [of it] Inr pl have w: "wf_payloads p (it_title it) (Inr (upd, ins))" by simp
    from Cons.prems(2) Inr have one: "title_count p (it_title it) (user_stories db) = 1"
      and others: "\<forall>it \<in> set (takeWhile (\<lambda>it. \<not> isl (mk it)) items).
                     title_count p (it_title it) (user_stories db) = 1"
      by simp_all
    from sync_story_update [OF Cons.prems(1) one w, of n] obtain db1 where
      s: "sync_story p (it_title it) (Inr (upd, ins)) (db, n) = (False, db1, Suc n)"
      and o1: "outcomes db1 = []"
      and f1: "map fst (user_stories db1) = map fst (user_stories db)"
      and c1: "\<forall>t'. title_count p t' (user_stories db1) = title_count p t' (user_stories db)"
      by blast
    from Cons.prems(3) s Inr pl have rest: "stories_loop mk p items (db1, Suc n) = (thr, db', n')"
      by simp
    from others c1 have others1: "\<forall>it \<in> set (takeWhile (\<lambda>it. \<not> isl (mk it)) items).
                     title_count p (it_title it) (user_stories db1) = 1"
      by simp
    from Cons.IH [OF o1 others1 rest] f1 c1 show ?thesis by simp
  qed
qed


lemma sync_provider_state:
  "fst (sync_provider pr mk p call st) = snd (stories_loop mk p (feed_items call) st)"
proof (cases call)
  case FetchThrows
  then show ?thesis by (simp add: sync_provider_def feed_items_def)
next
  case (Reaches r)
  show ?thesis
  proof (cases r)
    case (TrackerAnswers status items)
    with Reaches show ?thesis
      by (cases "stories_loop mk p items st"; cases "fst (stories_loop mk p items st)")
         (simp_all add: sync_provider_def feed_items_def integration_function_def failure_reply_def)
  qed (use Reaches in \<open>simp_all add: sync_provider_def feed_items_def integration_function_def failure_reply_def\<close>)
qed

lemma sync_db_loops:
  assumes "signed_in env" "current_project env = Some p"
  shows "sr_db (syncFromIntegrations env db) =
           fst (snd (stories_loop (azure_payloads p) p
                  (if azure_ready (saved_azure env) then feed_items (azure_call env) else [])
                  (snd (stories_loop (jira_payloads p) p
                     (if jira_ready (saved_jira env) then feed_items (jira_call env) else []) (db, 0)))))"
  using assms
    sync_provider_state [of Jira "jira_payloads p" p "jira_call env" "(db, 0)"]
    sync_provider_state [of AzureDevOps "azure_payloads p" p "azure_call env"]
  by (simp add: syncFromIntegrations_def split_beta Let_def)

lemma sync_twice_updates_only:
  assumes env: "signed_in env" "current_project env = Some p"
    and ok: "outcomes db = []"
    and unique: "\<forall>t. title_count p t (user_stories db) \<le> 1"
  shows "map fst (user_stories (sr_db (syncFromIntegrations env (sr_db (syncFromIntegrations env db)))))
           = map fst (user_stories (sr_db (syncFromIntegrations env db)))"
proof -
  let ?J = "if jira_ready (saved_jira env) then feed_items (jira_call env) else []"
  let ?A = "if azure_ready (saved_azure env) then feed_items (azure_call env) else []"
  let ?mj = "jira_payloads p" and ?ma = "azure_payloads p"
  obtain tj dbj nj where j1: "stories_loop ?mj p ?J (db, 0) = (tj, dbj, nj)"
    by (cases "stories_loop ?mj p ?J (db, 0)")
  obtain ta dba na where a1: "stories_loop ?ma p ?A (dbj, nj) = (ta, dba, na)"
    by (cases "stories_loop ?ma p ?A (dbj, nj)")
  have run1: "sr_db (syncFromIntegrations env db) = dba"
    by (simp add: sync_db_loops [OF env] j1 a1)
  from loop_first_run [of p ?mj, OF wf_jira ok unique j1]
  have oj: "outcomes dbj = []" and ij: "\<forall>t. title_count p t (user_stories dbj) \<le> 1"
    and ej: "\<forall>it \<in> set (takeWhile (\<lambda>it. \<not> isl (?mj it)) ?J). title_count p (it_title it) (user_stories dbj) = 1"
    by simp_all
  from loop_first_run [of p ?ma, OF wf_azure oj ij a1]
  have oa: "outcomes dba = []" and ia: "\<forall>t. title_count p t (user_stories dba) \<le> 1"
    and ma: "\<forall>t. title_count p t (user_stories dbj) \<le> title_count p t (user_stories dba)"
    and ea: "\<forall>it \<in> set (takeWhile (\<lambda>it. \<not> isl (?ma it)) ?A). title_count p (it_title it) (user_stories dba) = 1"
    by simp_all
  have ej': "\<forall>it \<in> set (takeWhile (\<lambda>it. \<not> isl (?mj it)) ?J). title_count p (it_title it) (user_stories dba) = 1"
  proof
    fix it assume "it \<in> set (takeWhile (\<lambda>it. \<not> isl (?mj it)) ?J)"
    with ej have "title_count p (it_title it) (user_stories dbj) = 1" by blast
    with ma ia show "title_count p (it_title it) (user_stories dba) = 1"
      by (metis le_antisym)
  qed
  obtain tj2 dbj2 nj2 where j2: "stories_loop ?mj p ?J (dba, 0) = (tj2, dbj2, nj2)"
    by (cases "stories_loop ?mj p ?J (dba, 0)")
  obtain ta2 dba2 na2 where a2: "stories_loop ?ma p ?A (dbj2, nj2) = (ta2, dba2, na2)"
    by (cases "stories_loop ?ma p ?A (dbj2, nj2)")
  have run2: "sr_db (syncFromIntegrations env dba) = dba2"
    by (simp add: sync_db_loops [OF env] j2 a2)
  from loop_second_run [of p ?mj, OF wf_jira oa ej' j2]
  have oj2: "outcomes dbj2 = []" and fj2: "map fst (user_stories dbj2) = map fst (user_stories dba)"
    and cj2: "\<forall>t. title_count p t (user_stories dbj2) = title_count p t (user_stories dba)"
    by simp_all
  from ea cj2 have ea2: "\<forall>it \<in> set (takeWhile (\<lambda>it. \<not> isl (?ma it)) ?A). title_count p (it_title it) (user_stories dbj2) = 1"
    by simp
  from loop_second_run [of p ?ma, OF wf_azure oj2 ea2 a2]
  have "map fst (user_stories dba2) = map fst (user_stories dbj2)" by simp
  with fj2 show ?thesis by (simp add: run1 run2)
qed

lemma sync_provider_failed:
  assumes "failed_call c"
  shows "sync_provider pr mk p c st = (st, failure_log pr c)"
proof (cases c)
  case FetchThrows
  then show ?thesis by (simp add: sync_provider_def failure_log_def)
next
  case (Reaches r)
  with assms show ?thesis
    by (cases r) (simp_all add: sync_provider_def integration_function_def failure_reply_def failure_log_def)
qed

lemma failure_log_not_empty:
  assumes "failed_call c"
  shows "failure_log pr c \<noteq> []"
proof (cases c)
  case FetchThrows
  then show ?thesis by (simp add: failure_log_def)
next
  case (Reaches r)
  with assms show ?thesis
    by (cases r; cases pr) (simp_all add: integration_function_def failure_log_def rejection_log_def)
qed

text \<open>
  C9. In a run over both providers, a failed call of one provider (a network error, or a
  rejection by the tracker) is written to the console, in one line or more, and skipped:
  the store and the count end as in the run without that provider, so the other provider
  is processed in full, and the closing message reports the count of rows touched.
\<close>

theorem provider_failure_is_isolated:
  assumes "signed_in env" "current_project env = Some p"
    and "jira_ready (saved_jira env)" "azure_ready (saved_azure env)"
  shows "(failed_call (jira_call env) \<longrightarrow>
            sr_db (syncFromIntegrations env db) = sr_db (syncFromIntegrations (env\<lparr>saved_jira := None\<rparr>) db)
          \<and> sr_synced (syncFromIntegrations env db) = sr_synced (syncFromIntegrations (env\<lparr>saved_jira := None\<rparr>) db)
          \<and> failure_log Jira (jira_call env) \<noteq> []
          \<and> sr_log (syncFromIntegrations env db)
              = failure_log Jira (jira_call env) @ sr_log (syncFromIntegrations (env\<lparr>saved_jira := None\<rparr>) db))
       \<and> (failed_call (azure_call env) \<longrightarrow>
            sr_db (syncFromIntegrations env db) = sr_db (syncFromIntegrations (env\<lparr>saved_azure := None\<rparr>) db)
          \<and> sr_synced (syncFromIntegrations env db) = sr_synced (syncFromIntegrations (env\<lparr>saved_azure := None\<rparr>) db)
          \<and> failure_log AzureDevOps (azure_call env) \<noteq> []
          \<and> sr_log (syncFromIntegrations env db)
              = sr_log (syncFromIntegrations (env\<lparr>saved_azure := None\<rparr>) db) @ failure_log AzureDevOps (azure_call env))
       \<and> sr_toast (syncFromIntegrations env db)
            = (if sr_synced (syncFromIntegrations env db) > 0
               then SyncComplete (sr_synced (syncFromIntegrations env db)) else NoChanges)"
proof (intro conjI impI)
  assume f: "failed_call (jira_call env)"
  note j = sync_provider_failed [OF f]
  show "sr_db (syncFromIntegrations env db) = sr_db (syncFromIntegrations (env\<lparr>saved_jira := None\<rparr>) db)"
    using assms by (simp add: syncFromIntegrations_def j jira_ready_def split_beta Let_def)
  show "sr_synced (syncFromIntegrations env db) = sr_synced (syncFromIntegrations (env\<lparr>saved_jira := None\<rparr>) db)"
    using assms by (simp add: syncFromIntegrations_def j jira_ready_def split_beta Let_def)
  show "failure_log Jira (jira_call env) \<noteq> []"
    by (rule failure_log_not_empty [OF f])
  show "sr_log (syncFromIntegrations env db)
          = failure_log Jira (jira_call env) @ sr_log (syncFromIntegrations (env\<lparr>saved_jira := None\<rparr>) db)"
    using assms by (simp add: syncFromIntegrations_def j jira_ready_def split_beta Let_def)
next
  assume f: "failed_call (azure_call env)"
  note a = sync_provider_failed [OF f]
  show "sr_db (syncFromIntegrations env db) = sr_db (syncFromIntegrations (env\<lparr>saved_azure := None\<rparr>) db)"
    using assms by (simp add: syncFromIntegrations_def a azure_ready_def split_beta Let_def)
  show "sr_synced (syncFromIntegrations env db) = sr_synced (syncFromIntegrations (env\<lparr>saved_azure := None\<rparr>) db)"
    using assms by (simp add: syncFromIntegrations_def a azure_ready_def split_beta Let_def)
  show "failure_log AzureDevOps (azure_call env) \<noteq> []"
    by (rule failure_log_not_empty [OF f])
  show "sr_log (syncFromIntegrations env db)
          = sr_log (syncFromIntegrations (env\<lparr>saved_azure := None\<rparr>) db) @ failure_log AzureDevOps (azure_call env)"
    using assms by (simp add: syncFromIntegrations_def a azure_ready_def split_beta Let_def)
next
  show "sr_toast (syncFromIntegrations env db)
            = (if sr_synced (syncFromIntegrations env db) > 0
               then SyncComplete (sr_synced (syncFromIntegrations env db)) else NoChanges)"
    using assms by (simp add: syncFromIntegrations_def split_beta Let_def)
qed

lemma example_runs:
  "map (\<lambda>(i, f). (i, us_title f)) (user_stories (sr_db (syncFromIntegrations (rejected_jira_env\<lparr>saved_jira := None\<rparr>) checkout_db)))
     = [(1, ''Guest Checkout''), (2, ''Login''), (20, ''login'')]"
  "sr_synced (syncFromIntegrations (rejected_jira_env\<lparr>saved_jira := None\<rparr>) checkout_db) = 1"
  "sr_log (syncFromIntegrations (rejected_jira_env\<lparr>saved_jira := None\<rparr>) checkout_db) = []"
  "map (\<lambda>(i, f). (i, us_title f)) (user_stories (sr_db (syncFromIntegrations (unreachable_azure_env\<lparr>saved_azure := None\<rparr>) checkout_db)))
     = [(1, ''Guest Checkout''), (2, ''Login''), (20, ''login'')]"
  "sr_synced (syncFromIntegrations (unreachable_azure_env\<lparr>saved_azure := None\<rparr>) checkout_db) = 1"
  "sr_log (syncFromIntegrations (unreachable_azure_env\<lparr>saved_azure := None\<rparr>) checkout_db) = []"
  "map (\<lambda>(i, f). (i, us_title f)) (user_stories (sr_db (syncFromIntegrations (rejected_azure_env\<lparr>saved_azure := None\<rparr>) checkout_db)))
     = [(1, ''Guest Checkout''), (2, ''Login''), (20, ''login'')]"
  "sr_synced (syncFromIntegrations (rejected_azure_env\<lparr>saved_azure := None\<rparr>) checkout_db) = 1"
  "sr_log (syncFromIntegrations (rejected_azure_env\<lparr>saved_azure := None\<rparr>) checkout_db) = []"
  by code_simp+

theorem provider_failure_is_isolated_witness:
  "map (\<lambda>(i, f). (i, us_title f)) (user_stories (sr_db (syncFromIntegrations rejected_jira_env checkout_db)))
     = [(1, ''Guest Checkout''), (2, ''Login''), (20, ''login'')]
   \<and> sr_log (syncFromIntegrations rejected_jira_env checkout_db) = [EdgeError Jira]
   \<and> sr_toast (syncFromIntegrations rejected_jira_env checkout_db) = SyncComplete 1
   \<and> map (\<lambda>(i, f). (i, us_title f)) (user_stories (sr_db (syncFromIntegrations unreachable_azure_env checkout_db)))
     = [(1, ''Guest Checkout''), (2, ''Login''), (20, ''login'')]
   \<and> sr_log (syncFromIntegrations unreachable_azure_env checkout_db) = [ClientError AzureDevOps]
   \<and> sr_toast (syncFromIntegrations unreachable_azure_env checkout_db) = SyncComplete 1
   \<and> map (\<lambda>(i, f). (i, us_title f)) (user_stories (sr_db (syncFromIntegrations rejected_azure_env checkout_db)))
     = [(1, ''Guest Checkout''), (2, ''Login''), (20, ''login'')]
   \<and> sr_log (syncFromIntegrations rejected_azure_env checkout_db) = [EdgeError AzureDevOps, EdgeError AzureDevOps]
   \<and> sr_toast (syncFromIntegrations rejected_azure_env checkout_db) = SyncComplete 1"
proof -
  have h1: "signed_in rejected_jira_env" "current_project rejected_jira_env = Some 7"
    "jira_ready (saved_jira rejected_jira_env)" "azure_ready (saved_azure rejected_jira_env)"
    "failed_call (jira_call rejected_jira_env)"
    "failure_log Jira (jira_call rejected_jira_env) = [EdgeError Jira]"
    by (simp_all add: rejected_jira_env_def feed_env_def jira_ready_def azure_ready_def ready_jira_def
        ready_azure_def http_ok_def failure_log_def integration_function_def rejection_log_def)
  have h2: "signed_in unreachable_azure_env" "current_project unreachable_azure_env = Some 7"
    "jira_ready (saved_jira unreachable_azure_env)" "azure_ready (saved_azure unreachable_azure_env)"
    "failed_call (azure_call unreachable_azure_env)"
    "failure_log AzureDevOps (azure_call unreachable_azure_env) = [ClientError AzureDevOps]"
    by (simp_all add: unreachable_azure_env_def feed_env_def jira_ready_def azure_ready_def ready_jira_def
        ready_azure_def failure_log_def)
  have h3: "signed_in rejected_azure_env" "current_project rejected_azure_env = Some 7"
    "jira_ready (saved_jira rejected_azure_env)" "azure_ready (saved_azure rejected_azure_env)"
    "failed_call (azure_call rejected_azure_env)"
    "failure_log AzureDevOps (azure_call rejected_azure_env) = [EdgeError AzureDevOps, EdgeError AzureDevOps]"
    by (simp_all add: rejected_azure_env_def feed_env_def jira_ready_def azure_ready_def ready_jira_def
        ready_azure_def http_ok_def failure_log_def integration_function_def rejection_log_def)
  from provider_failure_is_isolated [OF h1(1-4), of checkout_db] h1(5,6)
       provider_failure_is_isolated [OF h2(1-4), of checkout_db] h2(5,6)
       provider_failure_is_isolated [OF h3(1-4), of checkout_db] h3(5,6)
  show ?thesis by (simp add: example_runs)
qed

section \<open>The test report: properties\<close>

lemma pow2_powi: "pow2 k = 2 powi k"
proof (cases "0 \<le> k")
  case True
  then show ?thesis by (simp only: pow2_def power_int_def if_True)
next
  case False
  have "inverse (2::rat) ^ nat (- k) = 1 / 2 ^ nat (- k)"
    by (simp only: inverse_eq_divide power_one_over)
  with False show ?thesis by (simp only: pow2_def power_int_def if_False)
qed

lemma pow2_pos: "0 < pow2 k"
  unfolding pow2_powi by (rule zero_less_power_int) simp

lemma pow2_diff_nat: "pow2 (int i - int j) = 2 ^ i / 2 ^ j"
proof -
  have "(2::rat) powi (int i - int j) = 2 powi int i / 2 powi int j"
    by (rule power_int_diff) simp
  then show ?thesis by (simp only: pow2_powi power_int_of_nat)
qed

lemma pow2_minus52: "pow2 (e - 52) = pow2 e / 2 ^ 52"
proof -
  have "(2::rat) powi (e - 52) = 2 powi e / 2 powi 52"
    by (rule power_int_diff) simp
  then show ?thesis by (simp only: pow2_powi power_int_numeral)
qed


lemma bitlen_bounds: "0 < a \<Longrightarrow> 2 ^ (bitlen a - 1) \<le> a \<and> a < 2 ^ bitlen a"
proof (induction a rule: bitlen.induct)
  case (1 a)
  show ?case
  proof (cases "a div 2 \<le> 0")
    case True
    with "1.prems" have "a = 1" by linarith
    then show ?thesis by (simp add: bitlen.simps [of 1] bitlen.simps [of 0])
  next
    case False
    then have pos: "0 < a div 2" by simp
    from "1.prems" have na: "\<not> a \<le> 0" by simp
    from "1.IH" [OF na pos] have ih: "2 ^ (bitlen (a div 2) - 1) \<le> a div 2" "a div 2 < 2 ^ bitlen (a div 2)"
      by simp_all
    have bl: "bitlen a = Suc (bitlen (a div 2))" using "1.prems" by (simp add: bitlen.simps [of a])
    have b1: "0 < bitlen (a div 2)" using pos by (simp add: bitlen.simps [of "a div 2"])
    from ih(1) have "2 * 2 ^ (bitlen (a div 2) - 1) \<le> a" by linarith
    moreover from b1 have "2 * 2 ^ (bitlen (a div 2) - 1) = (2::int) ^ bitlen (a div 2)"
      by (cases "bitlen (a div 2)") simp_all
    ultimately have lo: "2 ^ bitlen (a div 2) \<le> a" by simp
    from ih(2) have hi: "a < 2 * 2 ^ bitlen (a div 2)" by linarith
    from lo hi bl show ?thesis by simp
  qed
qed

lemma bitlen_pos: "0 < a \<Longrightarrow> 0 < bitlen a"
  by (simp add: bitlen.simps [of a])

lemma round_even_error: "\<bar>of_int (round_even z) - z\<bar> \<le> 1 / 2"
proof -
  have a: "of_int \<lfloor>z\<rfloor> \<le> z" by (rule of_int_floor_le)
  have b: "z < of_int \<lfloor>z\<rfloor> + 1" by linarith
  show ?thesis
  proof (cases "z - of_int \<lfloor>z\<rfloor> < 1 / 2")
    case True
    then have "round_even z = \<lfloor>z\<rfloor>" by (simp add: round_even_def Let_def)
    with True a show ?thesis by (simp add: abs_le_iff)
  next
    case False
    then have c: "1 / 2 \<le> z - of_int \<lfloor>z\<rfloor>" by simp
    show ?thesis
    proof (cases "1 / 2 < z - of_int \<lfloor>z\<rfloor>")
      case True
      with False have "round_even z = \<lfloor>z\<rfloor> + 1" by (simp add: round_even_def Let_def)
      with True b show ?thesis by (simp add: abs_le_iff)
    next
      case half: False
      with c have h: "z - of_int \<lfloor>z\<rfloor> = 1 / 2" by simp
      have "round_even z = \<lfloor>z\<rfloor> \<or> round_even z = \<lfloor>z\<rfloor> + 1"
        by (simp add: round_even_def Let_def)
      with h show ?thesis by (auto simp: abs_le_iff)
    qed
  qed
qed

lemma binade_le:
  assumes "0 < x"
  shows "pow2 (binade x) \<le> x"
proof -
  obtain a b where q: "quotient_of x = (a, b)" by (cases "quotient_of x")
  have bpos: "0 < b" by (rule quotient_of_denom_pos [OF q])
  have x: "x = of_int a / of_int b" by (rule quotient_of_div [OF q])
  have apos: "0 < a"
  proof (rule ccontr)
    assume "\<not> 0 < a"
    then have "(of_int a :: rat) \<le> 0" by simp
    with bpos have "of_int a / (of_int b :: rat) \<le> 0" by (simp add: divide_le_0_iff)
    with x assms show False by simp
  qed
  let ?la = "bitlen a" and ?lb = "bitlen b"
  let ?k = "int ?la - int ?lb"
  have bin: "binade x = (if pow2 ?k \<le> x then ?k else ?k - 1)"
    by (simp add: binade_def q)
  show ?thesis
  proof (cases "pow2 ?k \<le> x")
    case True
    with bin show ?thesis by simp
  next
    case False
    from apos have la: "0 < ?la" by (simp add: bitlen_pos)
    then have k1: "?k - 1 = int (?la - 1) - int ?lb" by simp
    from bitlen_bounds [OF apos] have "2 ^ (?la - 1) \<le> a" by simp
    then have "(of_int (2 ^ (?la - 1)) :: rat) \<le> of_int a" by (simp only: of_int_le_iff)
    then have lo: "(2::rat) ^ (?la - 1) \<le> of_int a" by simp
    from bitlen_bounds [OF bpos] have "b < 2 ^ ?lb" by simp
    then have "(of_int b :: rat) < of_int (2 ^ ?lb)" by (simp only: of_int_less_iff)
    then have hi: "(of_int b :: rat) \<le> 2 ^ ?lb" by simp
    have "(2::rat) ^ (?la - 1) / 2 ^ ?lb \<le> of_int a / of_int b"
      by (rule frac_le) (use lo hi bpos apos in simp_all)
    then have "pow2 (?k - 1) \<le> x"
      by (simp only: k1 pow2_diff_nat x)
    with bin False show ?thesis by simp
  qed
qed

lemma to_double_error:
  assumes "0 < x"
  shows "\<bar>to_double x - x\<bar> \<le> x / 2 ^ 53"
proof -
  let ?u = "pow2 (binade x - 52)"
  let ?m = "round_even (x / ?u)"
  have upos: "0 < ?u" by (rule pow2_pos)
  have td: "to_double x = of_int ?m * ?u"
    using assms by (simp add: to_double_def Let_def)
  have "\<bar>of_int ?m - x / ?u\<bar> * ?u \<le> 1 / 2 * ?u"
    by (rule mult_right_mono [OF round_even_error]) (use upos in simp)
  moreover have "\<bar>of_int ?m - x / ?u\<bar> * ?u = \<bar>of_int ?m * ?u - x\<bar>"
  proof -
    have "\<bar>of_int ?m - x / ?u\<bar> * ?u = \<bar>(of_int ?m - x / ?u) * ?u\<bar>"
      using upos by (simp add: abs_mult)
    also have "(of_int ?m - x / ?u) * ?u = of_int ?m * ?u - x"
      using upos by (simp add: left_diff_distrib)
    finally show ?thesis .
  qed
  ultimately have e: "\<bar>to_double x - x\<bar> \<le> ?u / 2" by (simp add: td)
  have "?u / 2 = pow2 (binade x) / 2 ^ 53" by (simp add: pow2_minus52)
  also have "\<dots> \<le> x / 2 ^ 53"
    by (rule divide_right_mono [OF binade_le [OF assms]]) simp
  finally show ?thesis using e by simp
qed


lemma toFixed1_error: "\<bar>of_int (toFixed1 y) - y * 10\<bar> \<le> 1 / 2"
proof -
  have a: "of_int \<lfloor>y * 10 + 1 / 2\<rfloor> \<le> y * 10 + 1 / 2" by (rule of_int_floor_le)
  have b: "y * 10 + 1 / 2 < of_int \<lfloor>y * 10 + 1 / 2\<rfloor> + 1" by linarith
  from a b show ?thesis unfolding toFixed1_def by linarith
qed

lemma passRate_zero_passed: "passRate 0 t = 0"
proof -
  have "\<lfloor>1 / 2 :: rat\<rfloor> = 0" by (simp add: floor_eq_iff)
  then show ?thesis by (simp add: passRate_def to_double_def toFixed1_def)
qed

lemma passRate_tenths: "\<exists>n::int. passRate p t = of_int n / 10"
proof (cases "t > 0")
  case True
  then show ?thesis by (auto simp: passRate_def)
next
  case False
  then have "passRate p t = of_int 0 / 10" by (simp add: passRate_def)
  then show ?thesis by blast
qed

lemma passRate_bound:
  assumes t: "0 < t" and pt: "p \<le> t" and t200: "t \<le> 200"
  shows "\<bar>passRate p t - of_nat p / of_nat t * 100\<bar> \<le> 1 / 20"
proof (cases "p = 0")
  case True
  then show ?thesis by (simp add: passRate_zero_passed)
next
  case False
  define x :: rat where "x = of_nat p / of_nat t"
  define q where "q = to_double x"
  define y where "y = to_double (q * 100)"
  define n where "n = toFixed1 y"
  have tr: "(0::rat) < of_nat t" using t by simp
  have xpos: "0 < x" using False t by (simp add: x_def)
  have xle: "x \<le> 1" using pt t by (simp add: x_def)
  have small: "x / 2 ^ 53 \<le> 1 / 2 ^ 53"
    by (rule divide_right_mono [OF xle]) simp
  from to_double_error [OF xpos] small have qx: "\<bar>q - x\<bar> \<le> 1 / 2 ^ 53"
    unfolding q_def by linarith
  from to_double_error [OF xpos] have "\<bar>q - x\<bar> \<le> x / 2 ^ 53" unfolding q_def .
  moreover have "x / 2 ^ 53 < x" using xpos by simp
  ultimately have qpos: "0 < q" by linarith
  have "(1::rat) / 2 ^ 53 \<le> 1" by simp
  with qx xle have q2: "q \<le> 2" by linarith
  have q100: "0 < q * 100" using qpos by simp
  have "q * 100 / 2 ^ 53 \<le> 200 / 2 ^ 53"
    by (rule divide_right_mono) (use q2 in simp_all)
  with to_double_error [OF q100] have yq: "\<bar>y - q * 100\<bar> \<le> 200 / 2 ^ 53"
    unfolding y_def by linarith
  from qx have "\<bar>q * 100 - x * 100\<bar> \<le> 100 / 2 ^ 53"
    by linarith
  with yq have yx: "\<bar>y - x * 100\<bar> \<le> 300 / 2 ^ 53" by linarith
  have ny: "\<bar>of_int n - y * 10\<bar> \<le> 1 / 2" unfolding n_def by (rule toFixed1_error)
  from yx have "\<bar>y * 10 - x * 1000\<bar> \<le> 3000 / 2 ^ 53" by linarith
  with ny have nx: "\<bar>of_int n - x * 1000\<bar> \<le> 1 / 2 + 3000 / 2 ^ 53" by linarith
  define D :: int where "D = n * int t - 1000 * int p"
  have Dr: "(of_int D :: rat) = (of_int n - x * 1000) * of_nat t"
    using tr by (simp add: D_def x_def left_diff_distrib)
  have "\<bar>(of_int n - x * 1000) * of_nat t\<bar> = \<bar>of_int n - x * 1000\<bar> * of_nat t"
    using tr by (simp add: abs_mult)
  also have "\<dots> \<le> (1 / 2 + 3000 / 2 ^ 53) * of_nat t"
    by (rule mult_right_mono [OF nx]) simp
  finally have Dle: "\<bar>of_int D :: rat\<bar> \<le> (1 / 2 + 3000 / 2 ^ 53) * of_nat t"
    by (simp only: Dr)
  have t200r: "(of_nat t :: rat) \<le> 200" using t200 by simp
  have "3000 / 2 ^ 53 * (of_nat t :: rat) \<le> 3000 / 2 ^ 53 * 200"
    by (rule mult_left_mono [OF t200r]) simp
  also have "\<dots> < (1 / 2 :: rat)" by simp
  finally have tiny: "3000 / 2 ^ 53 * (of_nat t :: rat) < 1 / 2" .
  from Dle tiny have "\<bar>of_int D :: rat\<bar> < (of_nat t + 1) / 2"
    by (simp add: distrib_right add_divide_distrib)
  then have "(of_int (2 * \<bar>D\<bar>) :: rat) < of_int (int t + 1)" by simp
  then have "2 * \<bar>D\<bar> < int t + 1" by (simp only: of_int_less_iff)
  then have "2 * \<bar>D\<bar> \<le> int t" by simp
  then have "(of_int (2 * \<bar>D\<bar>) :: rat) \<le> of_int (int t)" by (simp only: of_int_le_iff)
  then have Dhalf: "\<bar>of_int D :: rat\<bar> \<le> of_nat t / 2" by simp
  have "\<bar>of_int n - x * 1000\<bar> * of_nat t \<le> 1 / 2 * of_nat t"
    using Dhalf tr by (simp add: Dr abs_mult)
  then have half: "\<bar>of_int n - x * 1000\<bar> \<le> 1 / 2"
    using tr by (simp only: mult_le_cancel_right_pos)
  have pr: "passRate p t = of_int n / 10"
    using t by (simp add: passRate_def n_def y_def q_def x_def)
  from half have "\<bar>of_int n / 10 - x * 100\<bar> \<le> 1 / 20" by linarith
  then show ?thesis by (simp only: pr x_def)
qed


lemma report_success:
  assumes "generate_test_report req = Report text stats"
  shows "\<exists>tcs. rr_testCases req = Some (JArr tcs) \<and> tcs \<noteq> [] \<and> length tcs \<le> 200
           \<and> stats = \<lparr>totalTests = length tcs,
                       passedTests = count_status ''passed'' tcs,
                       failedTests = count_status ''failed'' tcs,
                       blockedTests = count_status ''blocked'' tcs,
                       pendingTests = count_status ''pending'' tcs,
                       statistics_passRate = passRate (count_status ''passed'' tcs) (length tcs)\<rparr>"
proof -
  from assms obtain tcs where tcs: "rr_testCases req = Some (JArr tcs)"
    by (cases "rr_testCases req"; cases "the (rr_testCases req)")
       (auto simp: generate_test_report_def split: if_splits)
  from assms tcs have "tcs \<noteq> []" "length tcs \<le> 200"
    and "stats = \<lparr>totalTests = length tcs,
                       passedTests = count_status ''passed'' tcs,
                       failedTests = count_status ''failed'' tcs,
                       blockedTests = count_status ''blocked'' tcs,
                       pendingTests = count_status ''pending'' tcs,
                       statistics_passRate = passRate (count_status ''passed'' tcs) (length tcs)\<rparr>"
    by (auto simp: generate_test_report_def split: if_splits narrative.splits)
  with tcs show ?thesis by blast
qed

lemma count_status_le: "count_status s tcs \<le> length tcs"
  by (simp add: count_status_def)

text \<open>
  C5, as amended. The pass-rate expression gives exactly 0 when the total is 0. For a
  list of one to 200 test cases it gives a number with one decimal place that is within
  0.05 of passed / total * 100, that is, the quotient rounded to one decimal place (on an
  exact tie the double arithmetic decides the direction). Every report the function
  returns is for a non-empty list of at most 200 test cases and carries that pass rate
  of its passed and total counts. An empty list never yields a report: an otherwise
  accepted request with an empty list is answered with status 400.
\<close>

theorem report_pass_rate:
  "passRate p 0 = 0
   \<and> (0 < t \<and> p \<le> t \<and> t \<le> 200 \<longrightarrow>
        (\<exists>n::int. passRate p t = of_int n / 10)
      \<and> \<bar>passRate p t - of_nat p / of_nat t * 100\<bar> \<le> 1 / 20)
   \<and> (generate_test_report req = Report text stats \<longrightarrow>
        (\<exists>tcs. rr_testCases req = Some (JArr tcs) \<and> tcs \<noteq> [] \<and> length tcs \<le> 200
              \<and> totalTests stats = length tcs
              \<and> passedTests stats = length (filter (\<lambda>tc. get tc ''status'' = Some (JStr ''passed'')) tcs)
              \<and> statistics_passRate stats = passRate (passedTests stats) (totalTests stats)
              \<and> \<bar>statistics_passRate stats - of_nat (passedTests stats) / of_nat (totalTests stats) * 100\<bar>
                    \<le> 1 / 20))
   \<and> (rr_authorization req \<and> rr_user req \<and> has_api_key (rr_openAIConfig req)
        \<and> rr_testCases req = Some (JArr []) \<longrightarrow>
        generate_test_report req = ReportError 400 ''Test cases array is required'')"
proof (intro conjI impI)
  show "passRate p 0 = 0" by (simp add: passRate_def)
next
  assume a: "0 < t \<and> p \<le> t \<and> t \<le> 200"
  show "\<exists>n::int. passRate p t = of_int n / 10" by (rule passRate_tenths)
  from a show "\<bar>passRate p t - of_nat p / of_nat t * 100\<bar> \<le> 1 / 20"
    by (intro passRate_bound) simp_all
next
  assume "generate_test_report req = Report text stats"
  from report_success [OF this] obtain tcs where tcs: "rr_testCases req = Some (JArr tcs)"
    and ne: "tcs \<noteq> []" and le: "length tcs \<le> 200"
    and st: "stats = \<lparr>totalTests = length tcs,
                       passedTests = count_status ''passed'' tcs,
                       failedTests = count_status ''failed'' tcs,
                       blockedTests = count_status ''blocked'' tcs,
                       pendingTests = count_status ''pending'' tcs,
                       statistics_passRate = passRate (count_status ''passed'' tcs) (length tcs)\<rparr>"
    by blast
  have b: "\<bar>passRate (count_status ''passed'' tcs) (length tcs)
            - of_nat (count_status ''passed'' tcs) / of_nat (length tcs) * 100\<bar> \<le> 1 / 20"
    by (rule passRate_bound) (use ne le count_status_le in simp_all)
  have "totalTests stats = length tcs"
    and "passedTests stats = length (filter (\<lambda>tc. get tc ''status'' = Some (JStr ''passed'')) tcs)"
    and "statistics_passRate stats = passRate (passedTests stats) (totalTests stats)"
    and "\<bar>statistics_passRate stats - of_nat (passedTests stats) / of_nat (totalTests stats) * 100\<bar> \<le> 1 / 20"
    using b by (simp_all add: st count_status_def)
  with tcs ne le show "\<exists>tcs. rr_testCases req = Some (JArr tcs) \<and> tcs \<noteq> [] \<and> length tcs \<le> 200
              \<and> totalTests stats = length tcs
              \<and> passedTests stats = length (filter (\<lambda>tc. get tc ''status'' = Some (JStr ''passed'')) tcs)
              \<and> statistics_passRate stats = passRate (passedTests stats) (totalTests stats)
              \<and> \<bar>statistics_passRate stats - of_nat (passedTests stats) / of_nat (totalTests stats) * 100\<bar>
                    \<le> 1 / 20"
    by blast
next
  assume "rr_authorization req \<and> rr_user req \<and> has_api_key (rr_openAIConfig req)
        \<and> rr_testCases req = Some (JArr [])"
  then show "generate_test_report req = ReportError 400 ''Test cases array is required''"
    by (simp add: generate_test_report_def)
qed

lemma report_examples:
  "generate_test_report
     (report_request_of [report_case ''Pay as guest'' ''passed'', report_case ''Reject an empty cart'' ''failed'',
                         report_case ''Sign in'' ''not-run''])
   = Report (JStr ''Executive Summary'')
       \<lparr>totalTests = 3, passedTests = 1, failedTests = 1, blockedTests = 0, pendingTests = 0,
        statistics_passRate = 333 / 10\<rparr>"
  "passRate 23 80 = 287 / 10"
  "passRate 1 16 = 63 / 10"
  by code_simp+

theorem report_pass_rate_witness:
  "generate_test_report
     (report_request_of [report_case ''Pay as guest'' ''passed'', report_case ''Reject an empty cart'' ''failed'',
                         report_case ''Sign in'' ''not-run''])
   = Report (JStr ''Executive Summary'')
       \<lparr>totalTests = 3, passedTests = 1, failedTests = 1, blockedTests = 0, pendingTests = 0,
        statistics_passRate = 333 / 10\<rparr>
   \<and> passRate 1 3 = 333 / 10
   \<and> passRate 23 80 = 287 / 10
   \<and> \<bar>passRate 23 80 - 23 / 80 * 100\<bar> \<le> 1 / 20
   \<and> generate_test_report (report_request_of []) = ReportError 400 ''Test cases array is required''"
proof -
  let ?req = "report_request_of [report_case ''Pay as guest'' ''passed'',
      report_case ''Reject an empty cart'' ''failed'', report_case ''Sign in'' ''not-run'']"
  let ?stats = "\<lparr>totalTests = 3, passedTests = 1, failedTests = 1, blockedTests = 0, pendingTests = 0,
        statistics_passRate = 333 / 10\<rparr>"
  have h: "rr_authorization (report_request_of []) \<and> rr_user (report_request_of [])
      \<and> has_api_key (rr_openAIConfig (report_request_of []))
      \<and> rr_testCases (report_request_of []) = Some (JArr [])"
    by (simp add: report_request_of_def has_api_key_def)
  have g: "(0::nat) < 80 \<and> (23::nat) \<le> 80 \<and> (80::nat) \<le> 200" by simp
  from report_pass_rate [of 23 80 "report_request_of []"] h g
  have a: "\<bar>passRate 23 80 - 23 / 80 * 100\<bar> \<le> 1 / 20"
    and b: "generate_test_report (report_request_of []) = ReportError 400 ''Test cases array is required''"
    by simp_all
  from report_pass_rate [of 0 1 ?req "JStr ''Executive Summary''" ?stats] report_examples(1)
  have "statistics_passRate ?stats = passRate (passedTests ?stats) (totalTests ?stats)" by blast
  then have c: "passRate 1 3 = 333 / 10" by simp
  from a b c show ?thesis by (simp add: report_examples)
qed

text \<open>
  C5 as stated fails for the empty list: the function rejects it with an error before any
  statistics are computed, so no pass rate of 0 is reported.
\<close>

theorem empty_report_counterexample:
  "rr_testCases (report_request_of []) = Some (JArr [])
   \<and> generate_test_report (report_request_of []) = ReportError 400 ''Test cases array is required''
   \<and> (\<forall>text stats. generate_test_report (report_request_of []) \<noteq> Report text stats)"
  by (simp add: report_request_of_def generate_test_report_def has_api_key_def)

end
